theory Spec2Isabelle
  imports Main "HOL-Library.Sublist"
begin

unbundle bit_operations_syntax

section \<open>host/lib/write\_firmware.py: a shallow embedding\<close>

text \<open>
  The module is Python 2: \<open>str\<close> is a byte string (here \<open>string\<close>, a list of
  8-bit \<open>char\<close>s), integers are unbounded (\<open>int\<close>), and \<open>/\<close> on integers is floor
  division. Exceptions are values of \<open>exn\<close>; a function that may raise returns
  \<open>exn + 'a\<close> together with the world it leaves behind.
\<close>

subsection \<open>Exceptions, the outside world, and what the program does to it\<close>

datatype exn =
    CmdError string
  | ValueError string
  | NameError string
  | KeyError string
  | IndexError string

text \<open>\<open>tools.Run\<close> either returns the standard output of the command or raises
  \<open>CmdError\<close> with a message.\<close>

datatype run_result = Completed string | Failed string

text \<open>Everything observable the module does, in order. Sleeps are in milliseconds.\<close>

datatype event =
    RunCmd string "string list" bool
  | Sleep nat
  | Notice string
  | Progress string
  | FdtCopy string
  | FdtPutString string string string
  | WriteFile string string
  | OutputSize string string

text \<open>
  The collaborators \<open>tools\<close>, \<open>fdt\<close> and \<open>output\<close> are not part of the module; they are
  the fields of \<open>world\<close>:
  \<^item> \<open>run_outcome w n\<close> is what the \<open>n\<close>-th call of \<open>tools.Run\<close> does (any sequence of
    outcomes is a function of this type), \<open>run_calls\<close> counts the calls made so far;
  \<^item> \<open>events\<close> is the log of commands run, sleeps, operator messages and files written;
  \<^item> \<open>file_contents\<close> is \<open>tools.ReadFile\<close>, \<open>outdir\<close> is \<open>tools.outdir\<close>;
  \<^item> \<open>fdt_bytes script\<close> is the serialised copy of the device tree after
    \<open>PutString('/config', 'bootcmd', script)\<close>;
  \<^item> \<open>fdt_textbase\<close> and \<open>fdt_flash_method\<close> are the two properties read with
    \<open>GetInt\<close> and \<open>GetString\<close> (\<open>None\<close>: the property is absent and the default is used).
\<close>

record world =
  run_outcome :: "nat \<Rightarrow> run_result"
  run_calls :: nat
  events :: "event list"
  stdout_is_tty :: bool
  file_contents :: "string \<Rightarrow> string"
  outdir :: string
  fdt_bytes :: "string \<Rightarrow> string"
  fdt_textbase :: int
  fdt_flash_method :: "string option"

definition emit :: "event \<Rightarrow> world \<Rightarrow> world" where
  "emit e w = w\<lparr>events := events w @ [e]\<rparr>"

definition Run :: "string \<Rightarrow> string list \<Rightarrow> bool \<Rightarrow> world \<Rightarrow> run_result \<times> world" where
  "Run cmd args sudo w =
     (run_outcome w (run_calls w),
      w\<lparr>run_calls := Suc (run_calls w), events := events w @ [RunCmd cmd args sudo]\<rparr>)"

subsection \<open>Library functions the module calls\<close>

text \<open>\<open>os.path.join\<close> (posixpath) of two components.\<close>

definition os_path_join :: "string \<Rightarrow> string \<Rightarrow> string" where
  "os_path_join a b =
     (if b \<noteq> [] \<and> hd b = CHR ''/'' then b
      else if a = [] \<or> last a = CHR ''/'' then a @ b
      else a @ ''/'' @ b)"

text \<open>\<open>sep.join(xs)\<close>.\<close>

fun join :: "string \<Rightarrow> string list \<Rightarrow> string" where
  "join sep [] = []"
| "join sep [x] = x"
| "join sep (x # y # ys) = x @ sep @ join sep (y # ys)"

text \<open>\<open>needle in haystack\<close> on strings.\<close>

fun contains :: "string \<Rightarrow> string \<Rightarrow> bool" where
  "contains pat [] = (pat = [])"
| "contains pat (c # cs) = (prefix pat (c # cs) \<or> contains pat cs)"

text \<open>Lower-case hexadecimal digits of a natural number, most significant first.\<close>

definition hex_digit :: "nat \<Rightarrow> char" where
  "hex_digit d = ''0123456789abcdef'' ! d"

fun hex_of_nat :: "nat \<Rightarrow> string" where
  "hex_of_nat n =
     (if n < 16 then [hex_digit n] else hex_of_nat (n div 16) @ [hex_digit (n mod 16)])"

declare hex_of_nat.simps [simp del]

text \<open>
  The \<open>%\<close> conversions the module uses: \<open>format_x alt width v\<close> is \<open>'%x' % v\<close> with the
  flag \<open>#\<close> when \<open>alt\<close> and zero padding to \<open>width\<close> characters when \<open>width > 0\<close>
  (\<open>'%08x'\<close> is \<open>format_x False 8\<close>, \<open>'%#x'\<close> is \<open>format_x True 0\<close>, \<open>'%#08x'\<close> is
  \<open>format_x True 8\<close>, \<open>'%04x'\<close> is \<open>format_x False 4\<close>). The sign and the \<open>0x\<close> prefix count
  towards the width; a value too wide is not truncated.
\<close>

definition format_x :: "bool \<Rightarrow> nat \<Rightarrow> int \<Rightarrow> string" where
  "format_x alt width v =
     (let sign = (if v < 0 then ''-'' else '''');
          pre = (if alt then ''0x'' else '''');
          digits = hex_of_nat (nat \<bar>v\<bar>)
      in sign @ pre @
         replicate (width - (length sign + length pre + length digits)) (CHR ''0'') @ digits)"

text \<open>A string in single quotes, as \<open>"'%s'" % s\<close> renders it.\<close>

definition quoted :: "string \<Rightarrow> string" where
  "quoted s = [CHR 0x27] @ s @ [CHR 0x27]"

text \<open>
  \<open>len(re.findall(pat, s))\<close> and \<open>re.sub(pat, rep, s)\<close> for a pattern without regular
  expression metacharacters and a replacement without backslashes (the module's
  placeholder and an address in hexadecimal): matches are found left to right and do not
  overlap.
\<close>

fun count_matches :: "string \<Rightarrow> string \<Rightarrow> nat" where
  "count_matches pat [] = (if pat = [] then 1 else 0)"
| "count_matches pat (c # cs) =
     (if prefix pat (c # cs) then Suc (count_matches pat (drop (length pat - 1) cs))
      else count_matches pat cs)"

fun re_sub :: "string \<Rightarrow> string \<Rightarrow> string \<Rightarrow> string" where
  "re_sub pat rep [] = (if pat = [] then rep else [])"
| "re_sub pat rep (c # cs) =
     (if pat = [] then rep @ c # re_sub pat rep cs
      else if prefix pat (c # cs) then rep @ re_sub pat rep (drop (length pat - 1) cs)
      else c # re_sub pat rep cs)"

text \<open>
  \<open>binascii.crc32\<close>: the CRC-32 of zlib (reflected polynomial \<open>0xEDB88320\<close>, initial
  value and final complement \<open>0xFFFFFFFF\<close>), computed bit by bit on a register that
  stays below \<open>2 ^ 32\<close>. Python 2 returns it as a signed 32-bit integer: a register
  value from \<open>2 ^ 31\<close> on reads as negative.
\<close>

definition crc32_bit :: "int \<Rightarrow> int" where
  "crc32_bit x = (if odd x then (x div 2) XOR 0xEDB88320 else x div 2)"

definition crc32_update :: "int \<Rightarrow> char \<Rightarrow> int" where
  "crc32_update c b = (crc32_bit ^^ 8) (c XOR of_char b)"

definition binascii_crc32 :: "string \<Rightarrow> int" where
  "binascii_crc32 s =
     (let c = foldl crc32_update 0xFFFFFFFF s XOR 0xFFFFFFFF
      in if c \<ge> 0x80000000 then c - 0x100000000 else c)"

text \<open>\<open>str.splitlines()\<close> of a byte string: lines end at LF, CR or CR LF.\<close>

fun splitlines :: "string \<Rightarrow> string list" where
  "splitlines [] = []"
| "splitlines (c # cs) =
     (if c = CHR 0x0A then [] # splitlines cs
      else if c = CHR 0x0D then
        (case cs of
           [] \<Rightarrow> [[]]
         | d # ds \<Rightarrow> if d = CHR 0x0A then [] # splitlines ds else [] # splitlines cs)
      else (case splitlines cs of [] \<Rightarrow> [[c]] | l # ls \<Rightarrow> (c # l) # ls))"

definition is_alpha :: "char \<Rightarrow> bool" where
  "is_alpha c = (let n = (of_char c :: nat) in (65 \<le> n \<and> n \<le> 90) \<or> (97 \<le> n \<and> n \<le> 122))"

text \<open>\<open>str.lower()\<close> on ASCII.\<close>

definition lower :: "string \<Rightarrow> string" where
  "lower s = map (\<lambda>c. let n = (of_char c :: nat) in
                       if 65 \<le> n \<and> n \<le> 90 then char_of (n + 32) else c) s"

subsection \<open>RoundUp\<close>

definition RoundUp :: "int \<Rightarrow> int \<Rightarrow> int" where
  "RoundUp v boundary = (v + boundary - 1) AND NOT (boundary - 1)"

subsection \<open>WriteFirmware.\_GetFlashScript\<close>

text \<open>
  \<open>flash_cmds\<close> is the list \<open>cmds\<close> as it stands when the method joins it;
  \<open>GetFlashScript\<close> is the pair the method returns.
\<close>

definition flash_cmds :: "int \<Rightarrow> bool \<Rightarrow> bool \<Rightarrow> string \<Rightarrow> int \<Rightarrow> string \<Rightarrow> string list" where
  \<open>flash_cmds payload_size update verify boot_type checksum bus =
     (let replace_me = ''zsHEXYla'';
          page_size = (if boot_type = ''sdmmc'' then 512 else 4096);
          update = (if boot_type \<noteq> ''spi'' then False else update);
          cmds = [
            ''setenv address       0x'' @ replace_me,
            ''setenv firmware_size '' @ format_x True 0 payload_size,
            ''setenv length        '' @ format_x True 0 (RoundUp payload_size page_size),
            ''setenv blocks   '' @ format_x True 0 (RoundUp payload_size page_size div page_size),
            ''setenv _crc    "crc32 -v ${address} ${firmware_size} '' @ format_x True 8 checksum
              @ ''"'',
            ''setenv _clear  "echo Clearing RAM; mw.b     ${address} 0 ${length}"''];
          cmds = cmds @
            (if boot_type = ''nand'' then [
               ''setenv _init   "echo Init NAND;  nand info"'',
               ''setenv _erase  "echo Erase NAND; nand erase            0 ${length}"'',
               ''setenv _write  "echo Write NAND; nand write ${address} 0 ${length}"'',
               ''setenv _read   "echo Read NAND;  nand read  ${address} 0 ${length}"'']
             else if boot_type = ''sdmmc'' then [
               ''setenv _init   "echo Init EMMC;  mmc rescan            0"'',
               ''setenv _erase  "echo Erase EMMC; "'',
               ''setenv _write  "echo Write EMMC; mmc write 0 ${address} 0 ${blocks} boot1"'',
               ''setenv _read   "echo Read EMMC;  mmc read 0 ${address} 0 ${blocks} boot1"'']
             else [
               ''setenv _init   "echo Init SPI;   sf probe            '' @ bus @ ''"'',
               ''setenv _erase  "echo Erase SPI;  sf erase            0 ${length}"'',
               ''setenv _write  "echo Write SPI;  sf write ${address} 0 ${length}"'',
               ''setenv _read   "echo Read SPI;   sf read  ${address} 0 ${length}"'',
               ''setenv _update "echo Update SPI; sf update ${address} 0 ${length}"'']);
          cmds = cmds @ [
            ''echo Firmware loaded to ${address}, size ${firmware_size}, length ${length}'',
            ''if run _crc; then'',
            ''run _init''];
          cmds = cmds @ (if update then [''time run _update'']
                         else [''run _erase'', ''run _write'']);
          cmds = cmds @ (if verify then [''run _clear'', ''run _read'', ''run _crc'']
                         else [''echo Skipping verify'']);
          cmds = cmds @ [
            ''else'',
            ''echo'',
            ''echo "** Checksum error on load: please check download tool **"'',
            ''fi'']
      in cmds)\<close>

definition GetFlashScript ::
    "int \<Rightarrow> bool \<Rightarrow> bool \<Rightarrow> string \<Rightarrow> int \<Rightarrow> string \<Rightarrow> string \<times> string" where
  "GetFlashScript payload_size update verify boot_type checksum bus =
     (join ''; '' (flash_cmds payload_size update verify boot_type checksum bus), ''zsHEXYla'')"

subsection \<open>WriteFirmware.PrepareFlasher\<close>

text \<open>The fields of a \<open>WriteFirmware\<close> object that the methods read.\<close>

record WriteFirmware =
  wf_text_base :: int
  wf_update :: bool
  wf_verify :: bool

text \<open>
  \<open>len(replace_me) is not len(new_str)\<close> compares two small integers by identity; CPython
  keeps one object for each integer from -5 to 256, and 8 is among them, so the test is
  true exactly when the lengths differ. The second check formats its message with the
  undefined name \<open>matches\<close>, so what it raises is a \<open>NameError\<close>. The file sizes that
  \<open>OutputSize\<close> prints are left to the collaborator.
\<close>

definition PrepareFlasher ::
    "WriteFirmware \<Rightarrow> string \<Rightarrow> string \<Rightarrow> bool \<Rightarrow> bool \<Rightarrow> string \<Rightarrow> string \<Rightarrow> world
       \<Rightarrow> (exn + string) \<times> world" where
  "PrepareFlasher self uboot payload update verify boot_type bus w =
     (let w = emit (FdtCopy (os_path_join (outdir w) ''flasher.dtb'')) w;
          payload_data = file_contents w payload;
          checksum = binascii_crc32 payload_data AND 0xffffffff;
          (script, replace_me) =
             GetFlashScript (int (length payload_data)) update verify boot_type checksum bus;
          data = file_contents w uboot;
          w = emit (FdtPutString ''/config'' ''bootcmd'' script) w;
          fdt_data = fdt_bytes w script;
          payload_offset = int (length data) + int (length fdt_data);
          alignment = 0x1000;
          payload_offset = (payload_offset + alignment - 1) AND NOT (alignment - 1);
          load_address = wf_text_base self + payload_offset;
          new_str = format_x False 8 load_address
      in if length replace_me \<noteq> length new_str then
           (Inl (ValueError (''Internal error: replacement string '' @ quoted replace_me
                   @ '' length does not match new string '' @ quoted new_str)), w)
         else if count_matches replace_me fdt_data \<noteq> 1 then
           (Inl (NameError (''global name '' @ quoted ''matches'' @ '' is not defined'')), w)
         else
           (let fdt_data = re_sub replace_me new_str fdt_data;
                data = data @ fdt_data;
                data = data @ replicate (nat (payload_offset - int (length data))) (CHR 0x00);
                data = data @ payload_data;
                flasher = os_path_join (outdir w) ''flasher-for-image.bin'';
                w = emit (WriteFile flasher data) w;
                w = emit (OutputSize ''U-Boot'' uboot) w;
                w = emit (OutputSize ''Payload'' payload) w;
                w = emit (Notice (''Payload checksum '' @ format_x False 8 checksum)) w;
                w = emit (OutputSize ''Flasher'' flasher) w
            in (Inr flasher, w)))"

subsection \<open>WriteFirmware.\_NvidiaFlashImage\<close>

text \<open>
  \<open>bct_boot_match line\<close> is the group \<open>boot\<close> of
  \<open>DevType\[0\] = NvBootDevType_(?P<boot>([a-zA-Z])+);\<close> matched at the start of a line, or
  \<open>None\<close> when the line does not match.
\<close>

definition bct_boot_match :: "string \<Rightarrow> string option" where
  "bct_boot_match line =
     (let pre = ''DevType[0] = NvBootDevType_'' in
      if prefix pre line then
        (let rest = drop (length pre) line;
             boot = takeWhile is_alpha rest;
             after = dropWhile is_alpha rest
         in if boot \<noteq> [] \<and> after \<noteq> [] \<and> hd after = CHR '';'' then Some boot else None)
      else None)"

text \<open>
  The loop \<open>for tries in range(10)\<close>, with the number of tries left as its first
  argument; \<open>last_err\<close> is \<open>None\<close> until a failure has been shown.
\<close>

fun nvflash_loop :: "nat \<Rightarrow> string list \<Rightarrow> string option \<Rightarrow> world \<Rightarrow> (exn + bool) \<times> world" where
  "nvflash_loop 0 args last_err w = (Inr False, w)"
| "nvflash_loop (Suc n) args last_err w =
     (case Run ''nvflash'' args True w of
        (Completed out, w) \<Rightarrow>
          (Inr True,
           emit (Notice ''Flasher downloaded - please see serial output for progress.'') w)
      | (Failed err, w) \<Rightarrow>
          if \<not> stdout_is_tty w then (Inr False, w)
          else if \<not> contains ''USB device not found'' err then
            (Inl (CmdError (''nvflash failed: '' @ err)), w)
          else if Some err \<noteq> last_err then
            nvflash_loop n args (Some err)
              (emit (Sleep 1000)
                (emit (Progress ''Please connect USB A-A cable and do a recovery-reset'')
                  (emit (Notice err) w)))
          else nvflash_loop n args last_err (emit (Sleep 1000) w))"

definition NvidiaFlashImage ::
    "WriteFirmware \<Rightarrow> string \<Rightarrow> string \<Rightarrow> string \<Rightarrow> world \<Rightarrow> (exn + bool) \<times> world" where
  "NvidiaFlashImage self uboot bct payload w =
     (case Run ''bct_dump'' [bct] False w of
        (Failed msg, w) \<Rightarrow> (Inl (CmdError msg), w)
      | (Completed bct_dumped, w) \<Rightarrow>
          (case filter (\<lambda>l. bct_boot_match l \<noteq> None) (splitlines bct_dumped) of
             [] \<Rightarrow> (Inl (IndexError ''list index out of range''), w)
           | l # _ \<Rightarrow>
               (let boot_type = lower (the (bct_boot_match l)) in
                case PrepareFlasher self uboot payload (wf_update self) (wf_verify self)
                       boot_type ''0'' w of
                  (Inl e, w) \<Rightarrow> (Inl e, w)
                | (Inr flasher, w) \<Rightarrow>
                    (let w = emit (Progress ''Uploading flasher image'') w;
                         args = [''--bct'', bct, ''--setbct'', ''--bl'', flasher, ''--go'',
                                 ''--setentry'', format_x True 0 (wf_text_base self),
                                 format_x True 0 (wf_text_base self)]
                     in nvflash_loop 10 args None w))))"

subsection \<open>WriteFirmware.\_WaitForUSBDevice\<close>

text \<open>The loop \<open>for tries in range(timeout * 2)\<close>, with the number of cycles left.\<close>

fun wait_loop :: "nat \<Rightarrow> string \<Rightarrow> int \<Rightarrow> int \<Rightarrow> world \<Rightarrow> bool \<times> world" where
  "wait_loop 0 name vendor_id product_id w = (False, w)"
| "wait_loop (Suc n) name vendor_id product_id w =
     (let args = [''-d'', format_x False 4 vendor_id @ '':'' @ format_x False 4 product_id] in
      case Run ''lsusb'' args True w of
        (Completed out, w) \<Rightarrow> (True, emit (Progress (''Found '' @ name @ '' board'')) w)
      | (Failed err, w) \<Rightarrow> wait_loop n name vendor_id product_id (emit (Sleep 500) w))"

definition WaitForUSBDevice :: "string \<Rightarrow> int \<Rightarrow> int \<Rightarrow> int \<Rightarrow> world \<Rightarrow> bool \<times> world" where
  "WaitForUSBDevice name vendor_id product_id timeout w =
     wait_loop (nat (timeout * 2)) name vendor_id product_id
       (emit (Progress ''Waiting for board to appear on USB bus'') w)"

subsection \<open>WriteFirmware.\_ExynosFlashImage\<close>

text \<open>
  The loop over \<open>download_list\<close> inside the \<open>try\<close>; an item is (stage name, address,
  file name).
\<close>

fun download_loop ::
    "(string \<times> int \<times> string) list \<Rightarrow> bool \<Rightarrow> int \<Rightarrow> int \<Rightarrow> world \<Rightarrow> (exn + unit) \<times> world" where
  "download_loop [] first vendor_id product_id w = (Inr (), w)"
| "download_loop (item # items) first vendor_id product_id w =
     (case WaitForUSBDevice ''exynos'' vendor_id product_id 4 w of
        (False, w) \<Rightarrow>
          if first then (Inl (CmdError ''Could not find Exynos board on USB port''), w)
          else (Inl (CmdError (''Stage '' @ quoted (fst item) @ '' did not complete'')), w)
      | (True, w) \<Rightarrow>
          (let args = [''-a'', format_x True 0 (fst (snd item)), ''-f'', snd (snd item)];
               first = False;
               w = emit (Notice (snd (snd item))) w;
               w = emit (Progress (''Uploading stage '' @ quoted (fst item))) w;
               w = emit (Sleep 1000) w
           in case Run ''smdk-usbdl'' args True w of
                (Failed msg, w) \<Rightarrow> (Inl (CmdError msg), w)
              | (Completed out, w) \<Rightarrow> download_loop items first vendor_id product_id w))"

text \<open>
  The \<open>finally\<close> clause runs after the loop however it ended; an exception raised by the
  clause itself replaces the one in flight.
\<close>

definition ExynosFlashImage ::
    "WriteFirmware \<Rightarrow> string \<Rightarrow> string \<Rightarrow> string \<Rightarrow> string \<Rightarrow> world \<Rightarrow> (exn + bool) \<times> world" where
  "ExynosFlashImage self uboot bl1 bl2 payload w =
     (case PrepareFlasher self uboot payload (wf_update self) (wf_verify self)
             ''Spi'' ''1:0'' w of
        (Inl e, w) \<Rightarrow> (Inl e, w)
      | (Inr flasher, w) \<Rightarrow>
          (let vendor_id = 0x04e8;
               product_id = 0x1234;
               w = emit (Progress ''Reseting board via servo'') w;
               args = [''warm_reset:on'', ''fw_up:on'', ''pwr_button:press'', ''sleep:.1'',
                       ''warm_reset:off''];
               args = [''cold_reset:on'', ''sleep:.2'', ''cold_reset:off''] @ args
           in case Run ''dut-control'' args False w of
                (Failed msg, w) \<Rightarrow> (Inl (CmdError msg), w)
              | (Completed out, w) \<Rightarrow>
                  (let w = emit (Sleep 2000) w;
                       w = emit (Progress ''Uploading flasher image'') w;
                       download_list = [(''bl1'', 0x02021400, bl1), (''bl2'', 0x02023400, bl2),
                                        (''u-boot'', 0x43e00000, flasher)];
                       (r, w) = download_loop download_list True vendor_id product_id w;
                       args = [''fw_up:off'', ''pwr_button:release'']
                   in case Run ''dut-control'' args False w of
                        (Failed msg, w) \<Rightarrow> (Inl (CmdError msg), w)
                      | (Completed out, w) \<Rightarrow>
                          (case r of
                             Inl e \<Rightarrow> (Inl e, w)
                           | Inr u \<Rightarrow>
                               (Inr True,
                                emit (Notice ''Flasher downloaded - please see serial output for progress.'') w)))))"

subsection \<open>DoWriteFirmware\<close>

text \<open>
  \<open>file_list\<close> is a dictionary (a missing key raises \<open>KeyError\<close>); \<open>text_base\<close> and \<open>dest\<close>
  may be \<open>None\<close>, and \<open>if text_base\<close> is false for \<open>None\<close> and for 0.
\<close>

definition DoWriteFirmware ::
    "string \<Rightarrow> (string \<rightharpoonup> string) \<Rightarrow> string \<Rightarrow> int option \<Rightarrow> bool \<Rightarrow> bool \<Rightarrow> string option
       \<Rightarrow> world \<Rightarrow> (exn + unit) \<times> world" where
  "DoWriteFirmware flasher file_list image_fname text_base update verify dest w =
     (let write = \<lparr>wf_text_base = fdt_textbase w, wf_update = True, wf_verify = False\<rparr>;
          write = (case text_base of
                     None \<Rightarrow> write
                   | Some t \<Rightarrow> if t \<noteq> 0 then write\<lparr>wf_text_base := t\<rparr> else write);
          write = write\<lparr>wf_update := update\<rparr>;
          write = write\<lparr>wf_verify := verify\<rparr>
      in if dest = Some ''usb'' then
           (let method = (case fdt_flash_method w of None \<Rightarrow> ''tegra'' | Some m \<Rightarrow> m);
                (ok, w) =
                  (if method = ''tegra'' then
                     (case file_list ''bct'' of
                        None \<Rightarrow> (Inl (KeyError ''bct''), w)
                      | Some bct \<Rightarrow> NvidiaFlashImage write flasher bct image_fname w)
                   else if method = ''exynos'' then
                     (case file_list ''exynos-bl1'' of
                        None \<Rightarrow> (Inl (KeyError ''exynos-bl1''), w)
                      | Some bl1 \<Rightarrow>
                          (case file_list ''exynos-bl2'' of
                             None \<Rightarrow> (Inl (KeyError ''exynos-bl2''), w)
                           | Some bl2 \<Rightarrow> ExynosFlashImage write flasher bl1 bl2 image_fname w))
                   else (Inl (CmdError (''Unknown flash method '' @ quoted method)), w))
            in case ok of
                 Inl e \<Rightarrow> (Inl e, w)
               | Inr True \<Rightarrow>
                   (Inr (),
                    emit (Progress ''Image uploaded - please wait for flashing to complete'') w)
               | Inr False \<Rightarrow>
                   (Inl (CmdError ''Image upload failed - please check board connection''), w))
         else if dest = Some ''sd'' then (Inr (), w)
         else (Inl (CmdError (''Unknown destination device ''
                 @ quoted (case dest of None \<Rightarrow> ''None'' | Some d \<Rightarrow> d))), w))"

subsection \<open>The log expected of the retry loop\<close>

text \<open>
  Not part of the module: what the description of the Nvidia path asks the retry loop to
  log for a run of transient failures with messages \<open>ms\<close>, when \<open>prev\<close> is the message
  of the failure before them: for each failure the command, a notice and the request to
  connect the cable only when the message differs from the previous one, and a sleep of
  one second. \<open>notices\<close> are the texts of the notices in a log.
\<close>

fun spec_transient_events :: "string list \<Rightarrow> string option \<Rightarrow> string list \<Rightarrow> event list" where
  "spec_transient_events args prev [] = []"
| "spec_transient_events args prev (m # ms) =
     RunCmd ''nvflash'' args True
       # (if Some m \<noteq> prev
          then [Notice m, Progress ''Please connect USB A-A cable and do a recovery-reset'']
          else [])
       @ Sleep 1000 # spec_transient_events args (Some m) ms"

definition notices :: "event list \<Rightarrow> string list" where
  "notices es = concat (map (\<lambda>e. case e of Notice m \<Rightarrow> [m] | _ \<Rightarrow> []) es)"

subsection \<open>A concrete world for the examples\<close>

text \<open>
  A bootloader of five bytes, a payload of seven, output directory \<open>out\<close>; the outcomes
  of the commands, whether standard output is a terminal and the serialisation of the
  device tree are parameters.
\<close>

definition sample_world :: "(nat \<Rightarrow> run_result) \<Rightarrow> bool \<Rightarrow> (string \<Rightarrow> string) \<Rightarrow> world" where
  "sample_world outcomes tty blob =
     \<lparr>run_outcome = outcomes, run_calls = 0, events = [], stdout_is_tty = tty,
      file_contents = (\<lambda>p. if p = ''u-boot.bin'' then ''UBOOT''
                            else if p = ''image.bin'' then ''PAYLOAD'' else []),
      outdir = ''out'', fdt_bytes = blob, fdt_textbase = 0x00e08000,
      fdt_flash_method = None\<rparr>"

section \<open>Properties\<close>

subsection \<open>RoundUp\<close>

lemma and_not_mask_int: "(x::int) AND NOT (mask n) = x - x mod 2 ^ n"
proof -
  have "x AND NOT (mask n) = push_bit n (drop_bit n x)"
    by (rule bit_eqI) (auto simp add: bit_simps)
  moreover have "push_bit n (drop_bit n x) + take_bit n x = x"
    by (rule bits_ident)
  ultimately show ?thesis
    by (simp add: take_bit_eq_mod)
qed

lemma RoundUp_pow2: "RoundUp v (2 ^ n) = (v + 2 ^ n - 1) - (v + 2 ^ n - 1) mod 2 ^ n"
  unfolding RoundUp_def using and_not_mask_int [of "v + 2 ^ n - 1" n]
  by (simp add: mask_eq_exp_minus_1)

lemma round_down_least:
  fixes v :: int
  assumes "0 < b"
  defines "r \<equiv> (v + b - 1) - (v + b - 1) mod b"
  shows "b dvd r" and "v \<le> r" and "\<And>m. b dvd m \<Longrightarrow> v \<le> m \<Longrightarrow> r \<le> m"
proof -
  show d: "b dvd r"
    unfolding r_def by (rule dvd_minus_mod)
  have lt: "(v + b - 1) mod b < b" and ge: "0 \<le> (v + b - 1) mod b"
    using assms by simp_all
  then show "v \<le> r"
    unfolding r_def by linarith
  fix m
  assume m: "b dvd m" "v \<le> m"
  then obtain k where k: "m = b * k"
    by (auto simp: dvd_def)
  from d obtain j where j: "r = b * j"
    by (auto simp: dvd_def)
  have "r < v + b"
    unfolding r_def using ge by linarith
  then have "b * j < b * k + b"
    using m k j by linarith
  then have "b * j < b * (k + 1)"
    by (simp add: algebra_simps)
  then have "j < k + 1"
    using assms(1) by (simp add: mult_less_cancel_left_pos)
  then have "j \<le> k"
    by simp
  then show "r \<le> m"
    using k j assms(1) by (simp add: mult_left_mono)
qed

text \<open>
  C8. For a non-negative offset and a boundary of 512 or 4096, \<open>RoundUp offset boundary\<close>
  is a multiple of the boundary, is at least the offset, and is at most every multiple of
  the boundary that is at least the offset: it is the smallest such multiple.
\<close>

theorem RoundUp_smallest_multiple:
  assumes "0 \<le> offset" and "boundary \<in> {512, 4096}"
  shows "boundary dvd RoundUp offset boundary \<and> offset \<le> RoundUp offset boundary
      \<and> (\<forall>m. boundary dvd m \<and> offset \<le> m \<longrightarrow> RoundUp offset boundary \<le> m)"
proof -
  from assms(2) obtain n where b: "boundary = 2 ^ n"
  proof
    assume "boundary = 512"
    then have "boundary = 2 ^ 9" by simp
    then show ?thesis using that by blast
  next
    assume "boundary \<in> {4096}"
    then have "boundary = 2 ^ 12" by simp
    then show ?thesis using that by blast
  qed
  have pos: "0 < boundary"
    using b by simp
  have r: "RoundUp offset boundary
             = (offset + boundary - 1) - (offset + boundary - 1) mod boundary"
    using RoundUp_pow2 [of offset n] b by simp
  have "boundary dvd RoundUp offset boundary"
    unfolding r by (rule round_down_least(1) [OF pos])
  moreover have "offset \<le> RoundUp offset boundary"
    unfolding r by (rule round_down_least(2) [OF pos])
  moreover have "\<forall>m. boundary dvd m \<and> offset \<le> m \<longrightarrow> RoundUp offset boundary \<le> m"
    unfolding r using round_down_least(3) [OF pos] by blast
  ultimately show ?thesis by blast
qed

theorem RoundUp_smallest_multiple_witness:
  "RoundUp 4097 4096 = 8192 \<and> RoundUp 1000 512 = 1024 \<and> RoundUp 4096 4096 = 4096
     \<and> (4096::int) dvd RoundUp 4097 4096 \<and> 4097 \<le> RoundUp 4097 4096"
  using RoundUp_smallest_multiple [of 4097 4096] by (simp add: RoundUp_def)

subsection \<open>Strings\<close>

lemma in_set_join: "c \<in> set cmds \<Longrightarrow> \<exists>pre post. join sep cmds = pre @ c @ post"
proof (induction sep cmds rule: join.induct)
  case (1 sep)
  then show ?case by simp
next
  case (2 sep x)
  then show ?case by (auto intro: exI [of _ "[]"])
next
  case (3 sep x y ys)
  show ?case
  proof (cases "c = x")
    case True
    then show ?thesis by (auto intro: exI [of _ "[]"])
  next
    case False
    with 3 obtain pre post where "join sep (y # ys) = pre @ c @ post" by auto
    then have "join sep (x # y # ys) = (x @ sep @ pre) @ c @ post" by simp
    then show ?thesis by blast
  qed
qed

lemma contains_append: "contains pat (pre @ pat @ post)"
proof (induction pre)
  case Nil
  show ?case
  proof (cases "pat @ post")
    case Nil
    then show ?thesis by simp
  next
    case (Cons a list)
    then have "prefix pat (a # list)"
      by (metis prefixI)
    with Cons show ?thesis by simp
  qed
next
  case (Cons x pre)
  then show ?case by simp
qed

lemma in_set_contains_join: "c \<in> set cmds \<Longrightarrow> contains c (join sep cmds)"
  using in_set_join contains_append by metis

lemma re_sub_length:
  "length rep = length pat \<Longrightarrow> length (re_sub pat rep s) = length s"
proof (induction pat rep s rule: re_sub.induct)
  case (1 pat rep)
  then show ?case by auto
next
  case (2 pat rep c cs)
  show ?case
  proof (cases "pat = []")
    case True
    with 2 show ?thesis by simp
  next
    case False
    show ?thesis
    proof (cases "prefix pat (c # cs)")
      case True
      then have le: "length pat \<le> Suc (length cs)"
        using prefix_length_le by fastforce
      have pos: "0 < length pat"
        using False by simp
      have "length (re_sub pat rep (c # cs))
              = length rep + length (re_sub pat rep (drop (length pat - 1) cs))"
        using False True by simp
      also have "\<dots> = length pat + (length cs - (length pat - 1))"
        using 2 False True by simp
      also have "\<dots> = length (c # cs)"
        using le pos by (cases pat) simp_all
      finally show ?thesis .
    next
      case np: False
      with 2 False show ?thesis by simp
    qed
  qed
qed

lemma re_sub_no_match:
  "pat \<noteq> [] \<Longrightarrow> count_matches pat s = 0 \<Longrightarrow> re_sub pat rep s = s"
  by (induction pat s rule: count_matches.induct) (auto split: if_splits)

lemma re_sub_single_match:
  "pat \<noteq> [] \<Longrightarrow> count_matches pat s = 1 \<Longrightarrow>
     \<exists>pre post. s = pre @ pat @ post \<and> re_sub pat rep s = pre @ rep @ post"
proof (induction pat s rule: count_matches.induct)
  case (1 pat)
  then show ?case by simp
next
  case (2 pat c cs)
  show ?case
  proof (cases "prefix pat (c # cs)")
    case True
    then obtain post where post: "c # cs = pat @ post"
      by (auto simp: prefix_def)
    with 2(3) have d: "drop (length pat - 1) cs = post"
      by (cases pat) auto
    from 2(4) True d have "count_matches pat post = 0" by simp
    then have "re_sub pat rep post = post"
      using 2(3) by (rule re_sub_no_match [rotated])
    with True d 2(3) have "re_sub pat rep (c # cs) = [] @ rep @ post" by simp
    with post show ?thesis by (metis append_Nil)
  next
    case False
    with 2 obtain pre post where "cs = pre @ pat @ post" "re_sub pat rep cs = pre @ rep @ post"
      by auto
    with False 2(3) have "c # cs = (c # pre) @ pat @ post \<and> re_sub pat rep (c # cs) = (c # pre) @ rep @ post"
      by simp
    then show ?thesis by blast
  qed
qed

lemma RoundUp_4096:
  "x \<le> RoundUp x 4096" "4096 dvd RoundUp x 4096"
proof -
  have r: "RoundUp x 4096 = (x + 4096 - 1) - (x + 4096 - 1) mod 4096"
    using RoundUp_pow2 [of x 12] by simp
  show "x \<le> RoundUp x 4096"
    unfolding r by (rule round_down_least(2)) simp
  show "4096 dvd RoundUp x 4096"
    unfolding r by (rule round_down_least(1)) simp
qed

subsection \<open>PrepareFlasher\<close>

lemma nat_diff_int2: "nat (x - (int a + int b)) = nat x - (a + b)"
  by linarith

lemma PrepareFlasher_normal_form:
  fixes self uboot payload update verify boot_type bus w
  defines "payload_data \<equiv> file_contents w payload"
  defines "checksum \<equiv> binascii_crc32 payload_data AND 0xffffffff"
  defines "script \<equiv> join ''; ''
             (flash_cmds (int (length payload_data)) update verify boot_type checksum bus)"
  defines "data \<equiv> file_contents w uboot"
  defines "fdt_data \<equiv> fdt_bytes w script"
  defines "payload_offset \<equiv> RoundUp (int (length data) + int (length fdt_data)) 4096"
  defines "new_str \<equiv> format_x False 8 (wf_text_base self + payload_offset)"
  defines "flasher \<equiv> os_path_join (outdir w) ''flasher-for-image.bin''"
  defines "started \<equiv> [FdtCopy (os_path_join (outdir w) ''flasher.dtb''),
                        FdtPutString ''/config'' ''bootcmd'' script]"
  shows "PrepareFlasher self uboot payload update verify boot_type bus w =
     (if length new_str \<noteq> 8 then
        (Inl (ValueError (''Internal error: replacement string '' @ quoted ''zsHEXYla''
                @ '' length does not match new string '' @ quoted new_str)),
         w\<lparr>events := events w @ started\<rparr>)
      else if count_matches ''zsHEXYla'' fdt_data \<noteq> 1 then
        (Inl (NameError (''global name '' @ quoted ''matches'' @ '' is not defined'')),
         w\<lparr>events := events w @ started\<rparr>)
      else
        (Inr flasher,
         w\<lparr>events := events w @ started @
            [WriteFile flasher
               (data @ re_sub ''zsHEXYla'' new_str fdt_data
                  @ replicate (nat payload_offset
                        - (length data + length (re_sub ''zsHEXYla'' new_str fdt_data))) (CHR 0x00)
                  @ payload_data),
             OutputSize ''U-Boot'' uboot,
             OutputSize ''Payload'' payload,
             Notice (''Payload checksum '' @ format_x False 8 checksum),
             OutputSize ''Flasher'' flasher]\<rparr>))"
  unfolding payload_data_def checksum_def script_def data_def fdt_data_def payload_offset_def
    new_str_def flasher_def started_def
  by (simp add: PrepareFlasher_def Let_def GetFlashScript_def emit_def RoundUp_def nat_diff_int2)

text \<open>
  C2. \<open>PrepareFlasher\<close> raises when the rendered load address is not 8 characters long
  (a \<open>ValueError\<close>), and raises when the placeholder does not occur exactly once in the
  serialised configuration (the \<open>NameError\<close> of the message's undefined name, when the
  length check has passed); in both cases nothing is written. When the address has 8
  characters and the placeholder occurs once, nothing is raised, and the image written
  has the configuration with the placeholder replaced by the address.
\<close>

theorem PrepareFlasher_checks:
  fixes self uboot payload update verify boot_type bus w
  defines "payload_data \<equiv> file_contents w payload"
  defines "script \<equiv> fst (GetFlashScript (int (length payload_data)) update verify boot_type
                            (binascii_crc32 payload_data AND 0xffffffff) bus)"
  defines "fdt_data \<equiv> fdt_bytes w script"
  defines "payload_offset \<equiv>
             RoundUp (int (length (file_contents w uboot)) + int (length fdt_data)) 4096"
  defines "new_str \<equiv> format_x False 8 (wf_text_base self + payload_offset)"
  defines "result \<equiv> PrepareFlasher self uboot payload update verify boot_type bus w"
  shows "(length new_str \<noteq> 8 \<longrightarrow>
            fst result = Inl (ValueError (''Internal error: replacement string ''
               @ quoted ''zsHEXYla'' @ '' length does not match new string '' @ quoted new_str)))
       \<and> (length new_str = 8 \<and> count_matches ''zsHEXYla'' fdt_data \<noteq> 1 \<longrightarrow>
            fst result = Inl (NameError (''global name '' @ quoted ''matches''
               @ '' is not defined'')))
       \<and> (length new_str \<noteq> 8 \<or> count_matches ''zsHEXYla'' fdt_data \<noteq> 1 \<longrightarrow>
            (\<exists>e. fst result = Inl e)
          \<and> events (snd result) = events w @
               [FdtCopy (os_path_join (outdir w) ''flasher.dtb''),
                FdtPutString ''/config'' ''bootcmd'' script])
       \<and> (length new_str = 8 \<and> count_matches ''zsHEXYla'' fdt_data = 1 \<longrightarrow>
            fst result = Inr (os_path_join (outdir w) ''flasher-for-image.bin'')
          \<and> (\<exists>pre post.
               fdt_data = pre @ ''zsHEXYla'' @ post
             \<and> WriteFile (os_path_join (outdir w) ''flasher-for-image.bin'')
                  (file_contents w uboot @ (pre @ new_str @ post)
                     @ replicate (nat payload_offset
                          - (length (file_contents w uboot) + length fdt_data)) (CHR 0x00)
                     @ payload_data) \<in> set (events (snd result))))"
proof -
  have nf: "result = PrepareFlasher self uboot payload update verify boot_type bus w"
    by (simp add: result_def)
  have s: "script = join ''; '' (flash_cmds (int (length payload_data)) update verify boot_type
                            (binascii_crc32 payload_data AND 0xffffffff) bus)"
    by (simp add: script_def GetFlashScript_def)
  note defs = nf PrepareFlasher_normal_form s payload_data_def fdt_data_def
    payload_offset_def new_str_def
  have 1: "length new_str \<noteq> 8 \<longrightarrow>
            fst result = Inl (ValueError (''Internal error: replacement string ''
               @ quoted ''zsHEXYla'' @ '' length does not match new string '' @ quoted new_str))"
    unfolding defs by simp
  have 2: "length new_str = 8 \<and> count_matches ''zsHEXYla'' fdt_data \<noteq> 1 \<longrightarrow>
            fst result = Inl (NameError (''global name '' @ quoted ''matches''
               @ '' is not defined''))"
    unfolding defs by simp
  have 3: "length new_str \<noteq> 8 \<or> count_matches ''zsHEXYla'' fdt_data \<noteq> 1 \<longrightarrow>
            (\<exists>e. fst result = Inl e)
          \<and> events (snd result) = events w @
               [FdtCopy (os_path_join (outdir w) ''flasher.dtb''),
                FdtPutString ''/config'' ''bootcmd'' script]"
    unfolding defs by simp
  have 4: "fst result = Inr (os_path_join (outdir w) ''flasher-for-image.bin'')
          \<and> (\<exists>pre post.
               fdt_data = pre @ ''zsHEXYla'' @ post
             \<and> WriteFile (os_path_join (outdir w) ''flasher-for-image.bin'')
                  (file_contents w uboot @ (pre @ new_str @ post)
                     @ replicate (nat payload_offset
                          - (length (file_contents w uboot) + length fdt_data)) (CHR 0x00)
                     @ payload_data) \<in> set (events (snd result)))"
    if ok: "length new_str = 8" "count_matches ''zsHEXYla'' fdt_data = 1"
  proof -
    from re_sub_single_match [of "''zsHEXYla''" fdt_data new_str] ok(2)
    obtain pre post where pp: "fdt_data = pre @ ''zsHEXYla'' @ post"
        "re_sub ''zsHEXYla'' new_str fdt_data = pre @ new_str @ post"
      by auto
    have len: "length (re_sub ''zsHEXYla'' new_str fdt_data) = length fdt_data"
      using ok(1) by (simp add: re_sub_length)
    have "fst result = Inr (os_path_join (outdir w) ''flasher-for-image.bin'')"
      using ok unfolding defs by simp
    moreover have "WriteFile (os_path_join (outdir w) ''flasher-for-image.bin'')
                  (file_contents w uboot @ (pre @ new_str @ post)
                     @ replicate (nat payload_offset
                          - (length (file_contents w uboot) + length fdt_data)) (CHR 0x00)
                     @ payload_data) \<in> set (events (snd result))"
      using ok len pp(2) unfolding defs by simp
    ultimately show ?thesis using pp(1) by blast
  qed
  from 1 2 3 4 show ?thesis by blast
qed

lemma replicate_numeral: "replicate (numeral k) x = x # replicate (pred_numeral k) x"
  by (simp add: numeral_eq_Suc)

lemma funpow_8: "(f ^^ 8) x = f (f (f (f (f (f (f (f x)))))))"
  by (simp add: eval_nat_numeral)

lemmas format_x_eval = format_x_def Let_def hex_of_nat.simps hex_digit_def replicate_numeral

lemmas crc32_eval = binascii_crc32_def crc32_update_def crc32_bit_def funpow_8 Let_def

lemma format_x_samples:
  "format_x False 8 0xe09000 = ''00e09000''"
  "format_x False 8 0x100001000 = ''100001000''"
  "format_x False 8 0x7d69940f = ''7d69940f''"
  "format_x True 8 0x7d69940f = ''0x7d69940f''"
  "format_x True 8 0x1234 = ''0x001234''"
  "format_x True 0 7 = ''0x7''"
  "format_x True 0 0x1000 = ''0x1000''"
  "format_x True 0 0x02021400 = ''0x2021400''"
  "format_x False 4 0x04e8 = ''04e8''"
  "format_x False 4 0x1234 = ''1234''"
  "format_x False 8 (- 255) = ''-00000ff''"
  by (simp_all add: format_x_eval)

lemma crc32_samples:
  "binascii_crc32 ''PAYLOAD'' = 0x7d69940f"
  "binascii_crc32 ''123456789'' = - 873187034"
  "binascii_crc32 [] = 0"
  by (simp_all add: crc32_eval)

lemma flash_cmds_head:
  "take 40 (join ''; '' (flash_cmds payload_size update verify boot_type checksum bus))
     = ''setenv address       0xzsHEXYla; setenv ''"
  by (simp add: flash_cmds_def Let_def)

lemma GetFlashScript_head:
  "take 40 (fst (GetFlashScript payload_size update verify boot_type checksum bus))
     = ''setenv address       0xzsHEXYla; setenv ''"
  by (simp add: GetFlashScript_def flash_cmds_head)

lemmas sample_eval =
  sample_world_def flash_cmds_head GetFlashScript_head RoundUp_def quoted_def
  os_path_join_def format_x_samples crc32_samples

theorem PrepareFlasher_checks_witness:
  "fst (PrepareFlasher \<lparr>wf_text_base = 0x00e08000, wf_update = True, wf_verify = False\<rparr>
          ''u-boot.bin'' ''image.bin'' True False ''spi'' ''0''
          (sample_world (\<lambda>n. Completed []) True (\<lambda>script. ''bootcmd='' @ take 40 script)))
     = Inr ''out/flasher-for-image.bin''
   \<and> fst (PrepareFlasher \<lparr>wf_text_base = 0x00e08000, wf_update = True, wf_verify = False\<rparr>
          ''u-boot.bin'' ''image.bin'' True False ''spi'' ''0''
          (sample_world (\<lambda>n. Completed []) True (\<lambda>script. [])))
     = Inl (NameError (''global name '' @ quoted ''matches'' @ '' is not defined''))
   \<and> fst (PrepareFlasher \<lparr>wf_text_base = 0x100000000, wf_update = True, wf_verify = False\<rparr>
          ''u-boot.bin'' ''image.bin'' True False ''spi'' ''0''
          (sample_world (\<lambda>n. Completed []) True (\<lambda>script. ''bootcmd='' @ take 40 script)))
     = Inl (ValueError (''Internal error: replacement string '' @ quoted ''zsHEXYla''
               @ '' length does not match new string '' @ quoted ''100001000''))"
  using
    PrepareFlasher_checks [where self = "\<lparr>wf_text_base = 0x00e08000, wf_update = True, wf_verify = False\<rparr>"
      and w = "sample_world (\<lambda>n. Completed []) True (\<lambda>script. ''bootcmd='' @ take 40 script)"
      and uboot = "''u-boot.bin''" and payload = "''image.bin''" and update = True
      and verify = False and boot_type = "''spi''" and bus = "''0''"]
    PrepareFlasher_checks [where self = "\<lparr>wf_text_base = 0x00e08000, wf_update = True, wf_verify = False\<rparr>"
      and w = "sample_world (\<lambda>n. Completed []) True (\<lambda>script. [])"
      and uboot = "''u-boot.bin''" and payload = "''image.bin''" and update = True
      and verify = False and boot_type = "''spi''" and bus = "''0''"]
    PrepareFlasher_checks [where self = "\<lparr>wf_text_base = 0x100000000, wf_update = True, wf_verify = False\<rparr>"
      and w = "sample_world (\<lambda>n. Completed []) True (\<lambda>script. ''bootcmd='' @ take 40 script)"
      and uboot = "''u-boot.bin''" and payload = "''image.bin''" and update = True
      and verify = False and boot_type = "''spi''" and bus = "''0''"]
  by (simp add: sample_eval)

subsection \<open>\_GetFlashScript\<close>

text \<open>
  Substrings of the script. A pattern without \<open>;\<close> that does not start with a space lies
  in the joined script exactly when it lies in one of the commands; a number rendered by
  \<open>format_x\<close> has only hexadecimal digits, \<open>x\<close> and \<open>-\<close>.
\<close>

lemma contains_iff: "contains pat s \<longleftrightarrow> (\<exists>pre post. s = pre @ pat @ post)"
proof
  show "contains pat s \<Longrightarrow> \<exists>pre post. s = pre @ pat @ post"
  proof (induction s)
    case Nil
    then show ?case by simp
  next
    case (Cons c cs)
    from Cons.prems have "prefix pat (c # cs) \<or> contains pat cs"
      by simp
    then show ?case
    proof
      assume "prefix pat (c # cs)"
      then obtain post where "c # cs = pat @ post"
        by (auto simp: prefix_def)
      then have "c # cs = [] @ pat @ post"
        by simp
      then show ?thesis
        by blast
    next
      assume "contains pat cs"
      with Cons.IH obtain pre post where "cs = pre @ pat @ post"
        by blast
      then have "c # cs = (c # pre) @ pat @ post"
        by simp
      then show ?thesis
        by blast
    qed
  qed
next
  assume "\<exists>pre post. s = pre @ pat @ post"
  then show "contains pat s"
    using contains_append by blast
qed

lemma contains_sep:
  assumes "q \<notin> set pat" and "pat \<noteq> []"
  shows "contains pat (s @ q # t) \<longleftrightarrow> contains pat s \<or> contains pat t"
proof
  assume "contains pat (s @ q # t)"
  then obtain pre post where e: "s @ q # t = pre @ pat @ post"
    unfolding contains_iff by blast
  then consider us where "s = pre @ us" "us @ q # t = pat @ post"
    | us where "s @ us = pre" "q # t = us @ pat @ post"
    by (auto simp: append_eq_append_conv2)
  then show "contains pat s \<or> contains pat t"
  proof cases
    case 1
    from 1(2) consider vs where "us = pat @ vs" "vs @ q # t = post"
      | vs where "us @ vs = pat" "q # t = vs @ post"
      by (auto simp: append_eq_append_conv2)
    then show ?thesis
    proof cases
      case 1
      with \<open>s = pre @ us\<close> have "s = pre @ pat @ vs"
        by simp
      then show ?thesis
        unfolding contains_iff by blast
    next
      case 2
      show ?thesis
      proof (cases vs)
        case Nil
        with 2 \<open>s = pre @ us\<close> have "s = pre @ pat @ []"
          by simp
        then show ?thesis
          unfolding contains_iff by blast
      next
        case (Cons v vs')
        with 2 have "q \<in> set pat"
          by auto
        with assms(1) show ?thesis
          by simp
      qed
    qed
  next
    case 2
    show ?thesis
    proof (cases us)
      case Nil
      with 2(2) assms(2) have "q \<in> set pat"
        by (cases pat) auto
      with assms(1) show ?thesis
        by simp
    next
      case (Cons u us')
      with 2(2) have "t = us' @ pat @ post"
        by simp
      then show ?thesis
        unfolding contains_iff by blast
    qed
  qed
next
  assume "contains pat s \<or> contains pat t"
  then show "contains pat (s @ q # t)"
  proof
    assume "contains pat s"
    then obtain pre post where "s = pre @ pat @ post"
      unfolding contains_iff by blast
    then have "s @ q # t = pre @ pat @ (post @ q # t)"
      by simp
    then show ?thesis
      unfolding contains_iff by blast
  next
    assume "contains pat t"
    then obtain pre post where "t = pre @ pat @ post"
      unfolding contains_iff by blast
    then have "s @ q # t = (s @ q # pre) @ pat @ post"
      by simp
    then show ?thesis
      unfolding contains_iff by blast
  qed
qed

lemma contains_join:
  assumes "CHR '';'' \<notin> set pat" and "pat \<noteq> []" and "hd pat \<noteq> CHR '' ''"
  shows "contains pat (join ''; '' cmds) \<longleftrightarrow> (\<exists>cmd\<in>set cmds. contains pat cmd)"
proof (induction "''; ''" cmds rule: join.induct)
  case 1
  then show ?case using assms(2) by simp
next
  case (2 x)
  then show ?case by simp
next
  case (3 x y ys)
  have sp: "contains pat (CHR '' '' # r) = contains pat r" for r
    using assms(2,3) by (cases pat) auto
  have "contains pat (join ''; '' (x # y # ys))
          = contains pat (x @ CHR '';'' # (CHR '' '' # join ''; '' (y # ys)))"
    by simp
  also have "\<dots> = (contains pat x \<or> contains pat (CHR '' '' # join ''; '' (y # ys)))"
    by (rule contains_sep [OF assms(1,2)])
  also have "\<dots> = (contains pat x \<or> (\<exists>cmd\<in>set (y # ys). contains pat cmd))"
    unfolding sp 3 by simp
  finally show ?case
    by simp
qed

lemma contains_missing_char:
  assumes "c \<in> set pat" and "c \<notin> set s"
  shows "\<not> contains pat s"
proof
  assume "contains pat s"
  then obtain pre post where "s = pre @ pat @ post"
    unfolding contains_iff by blast
  with assms show False
    by auto
qed

lemma hex_of_nat_chars: "set (hex_of_nat n) \<subseteq> set ''0123456789abcdef''"
proof (induction n rule: hex_of_nat.induct)
  case (1 n)
  have d: "hex_digit k \<in> set ''0123456789abcdef''" if "k < 16" for k
    unfolding hex_digit_def using that by (intro nth_mem) simp
  show ?case
  proof (cases "n < 16")
    case True
    then show ?thesis
      using d [of n] by (subst hex_of_nat.simps) simp
  next
    case False
    have "n mod 16 < 16"
      by simp
    with False 1 d [of "n mod 16"] show ?thesis
      by (subst hex_of_nat.simps) simp
  qed
qed

lemma format_x_chars:
  "set (format_x alt width v)
     \<subseteq> insert (CHR ''-'') (insert (CHR ''x'') (set ''0123456789abcdef''))"
proof -
  define H where "H = set ''0123456789abcdef''"
  have d: "set (hex_of_nat (nat \<bar>v\<bar>)) \<subseteq> H"
    unfolding H_def by (rule hex_of_nat_chars)
  have z: "CHR ''0'' \<in> H"
    unfolding H_def by simp
  have sg: "set (if v < 0 then ''-'' else []) \<subseteq> insert (CHR ''-'') (insert (CHR ''x'') H)"
    by auto
  have pr: "set (if alt then ''0x'' else []) \<subseteq> insert (CHR ''-'') (insert (CHR ''x'') H)"
    using z by auto
  have rp: "set (replicate k (CHR ''0'')) \<subseteq> insert (CHR ''-'') (insert (CHR ''x'') H)" for k
    using z by (auto simp add: set_replicate_conv_if)
  have "set (format_x alt width v) \<subseteq> insert (CHR ''-'') (insert (CHR ''x'') H)"
    unfolding format_x_def Let_def set_append
    using sg pr rp d by blast
  then show ?thesis
    unfolding H_def .
qed

lemma contains_format_x:
  assumes "c \<notin> insert (CHR ''-'') (insert (CHR ''x'') (set ''0123456789abcdef''))"
  shows "contains (c # rest) (format_x alt width v) = False"
proof -
  have "c \<notin> set (format_x alt width v)"
    using assms format_x_chars by blast
  then show ?thesis
    using contains_missing_char [of c "c # rest"] by simp
qed

lemma contains_format_x_quote:
  assumes "c \<notin> insert (CHR ''-'') (insert (CHR ''x'') (set ''0123456789abcdef''))"
      and "q \<notin> set (c # rest)"
  shows "contains (c # rest) (format_x alt width v @ [q]) = False"
  using contains_sep [of q "c # rest" "format_x alt width v" "[]"] assms contains_format_x
  by simp

lemma contains_bus_quote:
  assumes "q \<notin> set (c # rest)"
  shows "contains (c # rest) (bus @ [q]) = contains (c # rest) bus"
  using contains_sep [of q "c # rest" bus "[]"] assms by simp

lemma script_contains:
  assumes "CHR '';'' \<notin> set pat" and "pat \<noteq> []" and "hd pat \<noteq> CHR '' ''"
  shows "contains pat (fst (GetFlashScript payload_size update verify boot_type checksum bus))
           \<longleftrightarrow> (\<exists>cmd\<in>set (flash_cmds payload_size update verify boot_type checksum bus).
                  contains pat cmd)"
  unfolding GetFlashScript_def fst_conv by (rule contains_join [OF assms])

lemmas contains_pieces = contains_format_x contains_format_x_quote contains_bus_quote

lemma update_in_script:
  "contains ''time run _update''
     (fst (GetFlashScript payload_size update verify boot_type checksum bus))
   \<longleftrightarrow> (boot_type = ''spi'' \<and> update)
       \<or> (boot_type \<noteq> ''nand'' \<and> boot_type \<noteq> ''sdmmc'' \<and> contains ''time run _update'' bus)"
  apply (subst script_contains)
     apply simp
    apply simp
   apply simp
  apply (simp add: flash_cmds_def Let_def contains_pieces)
  done

lemma erase_in_script:
  "contains ''run _erase''
     (fst (GetFlashScript payload_size update verify boot_type checksum bus))
   \<longleftrightarrow> \<not> (boot_type = ''spi'' \<and> update)
       \<or> (boot_type \<noteq> ''nand'' \<and> boot_type \<noteq> ''sdmmc'' \<and> contains ''run _erase'' bus)"
  apply (subst script_contains)
     apply simp
    apply simp
   apply simp
  apply (simp add: flash_cmds_def Let_def contains_pieces)
  done

lemma write_in_script:
  "contains ''run _write''
     (fst (GetFlashScript payload_size update verify boot_type checksum bus))
   \<longleftrightarrow> \<not> (boot_type = ''spi'' \<and> update)
       \<or> (boot_type \<noteq> ''nand'' \<and> boot_type \<noteq> ''sdmmc'' \<and> contains ''run _write'' bus)"
  apply (subst script_contains)
     apply simp
    apply simp
   apply simp
  apply (simp add: flash_cmds_def Let_def contains_pieces)
  done









subsection \<open>The layout of the flasher image\<close>

text \<open>
  C4. When \<open>PrepareFlasher\<close> returns, the image it has written is the bootloader, then
  the configuration with the placeholder replaced (as long as the configuration it
  replaces), then zero bytes up to \<open>payload_offset\<close>, the sum of the two lengths rounded
  up to 4096, then the payload; the bytes of the image from \<open>payload_offset\<close> on, as many
  as the payload has, are the payload.
\<close>

theorem PrepareFlasher_image_layout:
  fixes self uboot payload update verify boot_type bus w
  defines "bootloader \<equiv> file_contents w uboot"
  defines "payload_data \<equiv> file_contents w payload"
  defines "script \<equiv> fst (GetFlashScript (int (length payload_data)) update verify boot_type
                            (binascii_crc32 payload_data AND 0xffffffff) bus)"
  defines "config_bytes \<equiv> fdt_bytes w script"
  defines "payload_offset \<equiv> RoundUp (int (length bootloader) + int (length config_bytes)) 4096"
  defines "substituted \<equiv>
             re_sub ''zsHEXYla'' (format_x False 8 (wf_text_base self + payload_offset)) config_bytes"
  defines "img \<equiv> bootloader @ substituted
             @ replicate (nat payload_offset - (length bootloader + length substituted)) (CHR 0x00)
             @ payload_data"
  assumes ok: "PrepareFlasher self uboot payload update verify boot_type bus w = (Inr flasher, w')"
  shows "WriteFile flasher img \<in> set (events w')
       \<and> (\<forall>f d. WriteFile f d \<in> set (drop (length (events w)) (events w')) \<longrightarrow> d = img)
       \<and> length substituted = length config_bytes
       \<and> int (length bootloader + length config_bytes) \<le> payload_offset
       \<and> 4096 dvd payload_offset
       \<and> int (length (bootloader @ substituted
             @ replicate (nat payload_offset - (length bootloader + length substituted)) (CHR 0x00)))
            = payload_offset
       \<and> take (length payload_data) (drop (nat payload_offset) img) = payload_data"
proof -
  define new_str where "new_str = format_x False 8 (wf_text_base self + payload_offset)"
  have s: "script = join ''; '' (flash_cmds (int (length payload_data)) update verify boot_type
                            (binascii_crc32 payload_data AND 0xffffffff) bus)"
    by (simp add: script_def GetFlashScript_def)
  have nf: "PrepareFlasher self uboot payload update verify boot_type bus w =
     (if length new_str \<noteq> 8 then
        (Inl (ValueError (''Internal error: replacement string '' @ quoted ''zsHEXYla''
                @ '' length does not match new string '' @ quoted new_str)),
         w\<lparr>events := events w @ [FdtCopy (os_path_join (outdir w) ''flasher.dtb''),
                        FdtPutString ''/config'' ''bootcmd'' script]\<rparr>)
      else if count_matches ''zsHEXYla'' config_bytes \<noteq> 1 then
        (Inl (NameError (''global name '' @ quoted ''matches'' @ '' is not defined'')),
         w\<lparr>events := events w @ [FdtCopy (os_path_join (outdir w) ''flasher.dtb''),
                        FdtPutString ''/config'' ''bootcmd'' script]\<rparr>)
      else
        (Inr (os_path_join (outdir w) ''flasher-for-image.bin''),
         w\<lparr>events := events w @ [FdtCopy (os_path_join (outdir w) ''flasher.dtb''),
                        FdtPutString ''/config'' ''bootcmd'' script] @
            [WriteFile (os_path_join (outdir w) ''flasher-for-image.bin'') img,
             OutputSize ''U-Boot'' uboot,
             OutputSize ''Payload'' payload,
             Notice (''Payload checksum ''
                @ format_x False 8 (binascii_crc32 payload_data AND 0xffffffff)),
             OutputSize ''Flasher'' (os_path_join (outdir w) ''flasher-for-image.bin'')]\<rparr>))"
    unfolding img_def substituted_def new_str_def payload_offset_def config_bytes_def s
      payload_data_def bootloader_def
    by (rule PrepareFlasher_normal_form)
  have len8: "length new_str = 8"
    using ok unfolding nf by (simp split: if_splits)
  have sub: "length substituted = length config_bytes"
    unfolding substituted_def using len8 by (simp add: re_sub_length new_str_def)
  have ge: "int (length bootloader + length config_bytes) \<le> payload_offset"
    unfolding payload_offset_def using RoundUp_4096(1) by simp
  have dv: "4096 dvd payload_offset"
    unfolding payload_offset_def by (rule RoundUp_4096(2))
  have pad: "length (bootloader @ substituted
               @ replicate (nat payload_offset - (length bootloader + length substituted)) (CHR 0x00))
             = nat payload_offset"
    using ge sub by simp
  have ev: "events w' = events w @
              [FdtCopy (os_path_join (outdir w) ''flasher.dtb''),
               FdtPutString ''/config'' ''bootcmd'' script,
               WriteFile flasher img,
               OutputSize ''U-Boot'' uboot,
               OutputSize ''Payload'' payload,
               Notice (''Payload checksum ''
                  @ format_x False 8 (binascii_crc32 payload_data AND 0xffffffff)),
               OutputSize ''Flasher'' flasher]"
    using ok unfolding nf by (auto split: if_splits)
  have "WriteFile flasher img \<in> set (events w')"
    unfolding ev by simp
  moreover have "\<forall>f d. WriteFile f d \<in> set (drop (length (events w)) (events w')) \<longrightarrow> d = img"
    unfolding ev by simp
  moreover have "int (length (bootloader @ substituted
             @ replicate (nat payload_offset - (length bootloader + length substituted)) (CHR 0x00)))
            = payload_offset"
    using pad ge by simp
  moreover have "take (length payload_data) (drop (nat payload_offset) img) = payload_data"
  proof -
    have "img = (bootloader @ substituted
               @ replicate (nat payload_offset - (length bootloader + length substituted)) (CHR 0x00))
             @ payload_data"
      by (simp add: img_def)
    then have "drop (nat payload_offset) img = payload_data"
      using pad by (metis append_eq_conv_conj)
    then show ?thesis
      by simp
  qed
  ultimately show ?thesis
    using sub ge dv by blast
qed

theorem PrepareFlasher_image_layout_witness:
  "WriteFile ''out/flasher-for-image.bin''
     (''UBOOT'' @ ''bootcmd=setenv address       0x00e09000; setenv ''
        @ replicate 4043 (CHR 0x00) @ ''PAYLOAD'')
     \<in> set (events (snd (PrepareFlasher
          \<lparr>wf_text_base = 0x00e08000, wf_update = True, wf_verify = False\<rparr>
          ''u-boot.bin'' ''image.bin'' True False ''spi'' ''0''
          (sample_world (\<lambda>n. Completed []) True (\<lambda>script. ''bootcmd='' @ take 40 script)))))
   \<and> take 7 (drop 4096 (''UBOOT'' @ ''bootcmd=setenv address       0x00e09000; setenv ''
        @ replicate 4043 (CHR 0x00) @ ''PAYLOAD'')) = ''PAYLOAD''"
proof -
  let ?r = "PrepareFlasher
          \<lparr>wf_text_base = 0x00e08000, wf_update = True, wf_verify = False\<rparr>
          ''u-boot.bin'' ''image.bin'' True False ''spi'' ''0''
          (sample_world (\<lambda>n. Completed []) True (\<lambda>script. ''bootcmd='' @ take 40 script))"
  have "fst ?r = Inr ''out/flasher-for-image.bin''"
    by (simp add: PrepareFlasher_normal_form sample_eval)
  then have ok: "?r = (Inr ''out/flasher-for-image.bin'', snd ?r)"
    by (metis prod.collapse)
  show ?thesis
    using PrepareFlasher_image_layout [OF ok] by (simp add: sample_eval)
qed

subsection \<open>The checksum\<close>

lemma xor_32bit:
  fixes a b :: int
  assumes "0 \<le> a" "a < 4294967296" "0 \<le> b" "b < 4294967296"
  shows "0 \<le> a XOR b \<and> a XOR b < 4294967296"
proof -
  have "a XOR b < 2 ^ 32"
    using assms by (intro XOR_upper) simp_all
  then show ?thesis
    using assms by simp
qed

lemma of_char_32bit: "0 \<le> (of_char b :: int) \<and> (of_char b :: int) < 4294967296"
proof -
  have "(of_char b :: int) = int (of_char b)"
    by (simp add: of_nat_of_char)
  moreover have "(of_char b :: nat) < 256"
    by simp
  ultimately show ?thesis
    by linarith
qed

lemma crc32_bit_range:
  assumes "0 \<le> x \<and> x < 4294967296"
  shows "0 \<le> crc32_bit x \<and> crc32_bit x < 4294967296"
proof -
  have h: "0 \<le> x div 2" "x div 2 < 4294967296"
    using assms by presburger+
  from xor_32bit [of "x div 2" "0xEDB88320"] h show ?thesis
    by (simp add: crc32_bit_def)
qed

lemma crc32_update_range:
  assumes "0 \<le> c \<and> c < 4294967296"
  shows "0 \<le> crc32_update c b \<and> crc32_update c b < 4294967296"
proof -
  have "0 \<le> c XOR of_char b \<and> c XOR of_char b < 4294967296"
    using assms of_char_32bit [of b] by (intro xor_32bit) simp_all
  then show ?thesis
    unfolding crc32_update_def funpow_8 by (intro crc32_bit_range)
qed

lemma crc32_register_range:
  "0 \<le> c \<and> c < 4294967296 \<Longrightarrow>
     0 \<le> foldl crc32_update c s \<and> foldl crc32_update c s < 4294967296"
proof (induction s arbitrary: c)
  case Nil
  then show ?case by simp
next
  case (Cons b s)
  from Cons.prems have "0 \<le> crc32_update c b \<and> crc32_update c b < 4294967296"
    by (rule crc32_update_range)
  then show ?case
    using Cons.IH by simp
qed

lemma and_ffffffff: "(x::int) AND 0xffffffff = x mod 4294967296"
proof -
  have "x AND mask 32 = x mod 2 ^ 32"
    by (simp only: take_bit_eq_mask [symmetric] take_bit_eq_mod)
  then show ?thesis
    by (simp add: mask_eq_exp_minus_1)
qed

lemma crc32_masked:
  "binascii_crc32 s AND 0xffffffff = foldl crc32_update 0xFFFFFFFF s XOR 0xFFFFFFFF"
proof -
  define c where "c = foldl crc32_update 0xFFFFFFFF s XOR 0xFFFFFFFF"
  have "0 \<le> foldl crc32_update 0xFFFFFFFF s \<and> foldl crc32_update 0xFFFFFFFF s < 4294967296"
    by (rule crc32_register_range) simp
  then have c: "0 \<le> c \<and> c < 4294967296"
    unfolding c_def by (intro xor_32bit) simp_all
  have m: "(if c \<ge> 0x80000000 then c - 0x100000000 else c) mod 4294967296 = c"
  proof (cases "c \<ge> 0x80000000")
    case True
    have "(c - 4294967296) mod 4294967296 = c mod 4294967296"
      using mod_add_self2 [of "c - 4294967296" 4294967296] by simp
    then show ?thesis
      using True c by simp
  next
    case False
    then show ?thesis
      using c by simp
  qed
  have b: "binascii_crc32 s = (if c \<ge> 0x80000000 then c - 0x100000000 else c)"
    by (simp add: binascii_crc32_def Let_def c_def)
  have "binascii_crc32 s AND 0xffffffff = c"
    unfolding and_ffffffff b by (rule m)
  then show ?thesis
    unfolding c_def .
qed

text \<open>
  C9. The checksum that \<open>PrepareFlasher\<close> computes is \<open>binascii.crc32\<close> of the payload
  bytes masked with \<open>0xffffffff\<close>, whatever the bootloader, the configuration and the
  board parameters are; it is the unsigned CRC-32 register value and lies in
  \<open>[0, 2 ^ 32)\<close>. The script stored in the configuration carries it, rendered with
  \<open>%#08x\<close>, as the last argument of the \<open>_crc\<close> command, and when the method returns it
  has told the operator \<open>Payload checksum\<close> followed by the same value rendered with
  \<open>%08x\<close>.
\<close>

theorem PrepareFlasher_checksum:
  fixes self uboot payload update verify boot_type bus w
  defines "payload_data \<equiv> file_contents w payload"
  defines "checksum \<equiv> binascii_crc32 payload_data AND 0xffffffff"
  defines "cmds \<equiv> flash_cmds (int (length payload_data)) update verify boot_type checksum bus"
  defines "result \<equiv> PrepareFlasher self uboot payload update verify boot_type bus w"
  shows \<open>0 \<le> checksum \<and> checksum < 2 ^ 32
       \<and> checksum = binascii_crc32 payload_data mod 2 ^ 32
       \<and> checksum = foldl crc32_update 0xFFFFFFFF payload_data XOR 0xFFFFFFFF
       \<and> FdtPutString ''/config'' ''bootcmd'' (join ''; '' cmds) \<in> set (events (snd result))
       \<and> cmds ! 4 = ''setenv _crc    "crc32 -v ${address} ${firmware_size} ''
                          @ format_x True 8 checksum @ ''"''
       \<and> (\<forall>flasher. fst result = Inr flasher \<longrightarrow>
             Notice (''Payload checksum '' @ format_x False 8 checksum)
               \<in> set (events (snd result)))\<close>
proof -
  have r: "0 \<le> checksum \<and> checksum < 4294967296"
    unfolding checksum_def and_ffffffff by simp
  have m: "checksum = binascii_crc32 payload_data mod 2 ^ 32"
    unfolding checksum_def and_ffffffff by simp
  have x: "checksum = foldl crc32_update 0xFFFFFFFF payload_data XOR 0xFFFFFFFF"
    unfolding checksum_def by (rule crc32_masked)
  have nf: "result = PrepareFlasher self uboot payload update verify boot_type bus w"
    by (simp add: result_def)
  have p: "FdtPutString ''/config'' ''bootcmd'' (join ''; '' cmds) \<in> set (events (snd result))"
    unfolding nf PrepareFlasher_normal_form cmds_def checksum_def payload_data_def by simp
  have c: \<open>cmds ! 4 = ''setenv _crc    "crc32 -v ${address} ${firmware_size} ''
                          @ format_x True 8 checksum @ ''"''\<close>
    unfolding cmds_def by (simp add: flash_cmds_def Let_def)
  have n: "\<forall>flasher. fst result = Inr flasher \<longrightarrow>
             Notice (''Payload checksum '' @ format_x False 8 checksum)
               \<in> set (events (snd result))"
    unfolding nf PrepareFlasher_normal_form cmds_def checksum_def payload_data_def by simp
  from r m x p c n show ?thesis
    by simp
qed

theorem PrepareFlasher_checksum_witness:
  \<open>binascii_crc32 ''PAYLOAD'' AND 0xffffffff = 0x7d69940f
   \<and> flash_cmds 7 True False ''spi'' 0x7d69940f ''0'' ! 4
       = ''setenv _crc    "crc32 -v ${address} ${firmware_size} 0x7d69940f"''
   \<and> Notice ''Payload checksum 7d69940f''
       \<in> set (events (snd (PrepareFlasher
            \<lparr>wf_text_base = 0x00e08000, wf_update = True, wf_verify = False\<rparr>
            ''u-boot.bin'' ''image.bin'' True False ''spi'' ''0''
            (sample_world (\<lambda>n. Completed []) True (\<lambda>script. ''bootcmd='' @ take 40 script)))))\<close>
proof -
  let ?r = "PrepareFlasher
          \<lparr>wf_text_base = 0x00e08000, wf_update = True, wf_verify = False\<rparr>
          ''u-boot.bin'' ''image.bin'' True False ''spi'' ''0''
          (sample_world (\<lambda>n. Completed []) True (\<lambda>script. ''bootcmd='' @ take 40 script))"
  have ok: "fst ?r = Inr ''out/flasher-for-image.bin''"
    by (simp add: PrepareFlasher_normal_form sample_eval)
  show ?thesis
    using ok PrepareFlasher_checksum [where self = "\<lparr>wf_text_base = 0x00e08000, wf_update = True, wf_verify = False\<rparr>"
      and w = "sample_world (\<lambda>n. Completed []) True (\<lambda>script. ''bootcmd='' @ take 40 script)"
      and uboot = "''u-boot.bin''" and payload = "''image.bin''" and update = True
      and verify = False and boot_type = "''spi''" and bus = "''0''"]
    by (simp add: sample_world_def crc32_samples format_x_samples)
qed

subsection \<open>\_WaitForUSBDevice\<close>

lemma wait_loop_all_fail:
  "(\<forall>i<n. \<exists>m. run_outcome w (run_calls w + i) = Failed m) \<Longrightarrow>
     wait_loop n name vendor_id product_id w =
       (False,
        w\<lparr>run_calls := run_calls w + n,
          events := events w @ concat (replicate n
            [RunCmd ''lsusb'' [''-d'', format_x False 4 vendor_id @ '':''
                                   @ format_x False 4 product_id] True,
             Sleep 500])\<rparr>)"
proof (induction n arbitrary: w)
  case 0
  then show ?case by simp
next
  case (Suc n)
  let ?q = "RunCmd ''lsusb'' [''-d'', format_x False 4 vendor_id @ '':''
                                   @ format_x False 4 product_id] True"
  from Suc.prems obtain m where m: "run_outcome w (run_calls w) = Failed m"
    by (metis add.right_neutral zero_less_Suc)
  define w1 where "w1 = w\<lparr>run_calls := Suc (run_calls w), events := events w @ [?q, Sleep 500]\<rparr>"
  have step: "wait_loop (Suc n) name vendor_id product_id w
                = wait_loop n name vendor_id product_id w1"
    using m by (simp add: Run_def emit_def w1_def Let_def)
  have "\<forall>i<n. \<exists>m. run_outcome w1 (run_calls w1 + i) = Failed m"
  proof (intro allI impI)
    fix i assume "i < n"
    then have "\<exists>m. run_outcome w (run_calls w + Suc i) = Failed m"
      using Suc.prems by (metis Suc_less_eq)
    then show "\<exists>m. run_outcome w1 (run_calls w1 + i) = Failed m"
      by (simp add: w1_def)
  qed
  from Suc.IH [OF this] show ?case
    unfolding step by (simp add: w1_def)
qed

lemma wait_loop_found:
  "k < n \<Longrightarrow> (\<forall>i<k. \<exists>m. run_outcome w (run_calls w + i) = Failed m) \<Longrightarrow>
   run_outcome w (run_calls w + k) = Completed out \<Longrightarrow>
     wait_loop n name vendor_id product_id w =
       (True,
        w\<lparr>run_calls := run_calls w + k + 1,
          events := events w @ concat (replicate k
            [RunCmd ''lsusb'' [''-d'', format_x False 4 vendor_id @ '':''
                                   @ format_x False 4 product_id] True,
             Sleep 500])
            @ [RunCmd ''lsusb'' [''-d'', format_x False 4 vendor_id @ '':''
                                   @ format_x False 4 product_id] True,
               Progress (''Found '' @ name @ '' board'')]\<rparr>)"
proof (induction n arbitrary: w k)
  case 0
  then show ?case by simp
next
  case (Suc n)
  let ?q = "RunCmd ''lsusb'' [''-d'', format_x False 4 vendor_id @ '':''
                                   @ format_x False 4 product_id] True"
  show ?case
  proof (cases k)
    case 0
    with Suc.prems show ?thesis
      by (simp add: Run_def emit_def Let_def)
  next
    case (Suc j)
    from Suc.prems(2) Suc obtain m where m: "run_outcome w (run_calls w) = Failed m"
      by (metis add.right_neutral zero_less_Suc)
    define w1 where
      "w1 = w\<lparr>run_calls := Suc (run_calls w), events := events w @ [?q, Sleep 500]\<rparr>"
    have step: "wait_loop (Suc n) name vendor_id product_id w
                  = wait_loop n name vendor_id product_id w1"
      using m by (simp add: Run_def emit_def w1_def Let_def)
    have a: "j < n"
      using Suc.prems(1) Suc by simp
    have b: "\<forall>i<j. \<exists>m. run_outcome w1 (run_calls w1 + i) = Failed m"
    proof (intro allI impI)
      fix i assume "i < j"
      then have "\<exists>m. run_outcome w (run_calls w + Suc i) = Failed m"
        using Suc.prems(2) Suc by (metis Suc_less_eq)
      then show "\<exists>m. run_outcome w1 (run_calls w1 + i) = Failed m"
        by (simp add: w1_def)
    qed
    have c: "run_outcome w1 (run_calls w1 + j) = Completed out"
      using Suc.prems(3) Suc by (simp add: w1_def)
    from Suc.IH [OF a b c] show ?thesis
      unfolding step by (simp add: w1_def Suc)
  qed
qed

lemma wait_loop_False_all_fail:
  "fst (wait_loop n name vendor_id product_id w) = False \<Longrightarrow>
     \<forall>i<n. \<exists>m. run_outcome w (run_calls w + i) = Failed m"
proof (induction n arbitrary: w)
  case 0
  then show ?case by simp
next
  case (Suc n)
  let ?q = "RunCmd ''lsusb'' [''-d'', format_x False 4 vendor_id @ '':''
                                   @ format_x False 4 product_id] True"
  define w1 where
    "w1 = w\<lparr>run_calls := Suc (run_calls w), events := events w @ [?q, Sleep 500]\<rparr>"
  from Suc.prems obtain m where m: "run_outcome w (run_calls w) = Failed m"
    by (cases "run_outcome w (run_calls w)") (auto simp add: Run_def emit_def Let_def)
  have step: "wait_loop (Suc n) name vendor_id product_id w
                = wait_loop n name vendor_id product_id w1"
    using m by (simp add: Run_def emit_def w1_def Let_def)
  with Suc.prems have "fst (wait_loop n name vendor_id product_id w1) = False"
    by simp
  from Suc.IH [OF this] have ih: "\<forall>i<n. \<exists>m. run_outcome w (Suc (run_calls w) + i) = Failed m"
    by (simp add: w1_def)
  show ?case
  proof (intro allI impI)
    fix i assume "i < Suc n"
    show "\<exists>m. run_outcome w (run_calls w + i) = Failed m"
    proof (cases i)
      case 0
      with m show ?thesis by simp
    next
      case (Suc j)
      with \<open>i < Suc n\<close> ih show ?thesis by simp
    qed
  qed
qed

text \<open>
  C5. With \<open>timeout \<ge> 0\<close> the probe has \<open>timeout * 2\<close> cycles, each one \<open>lsusb\<close> query.
  If the first \<open>k\<close> queries fail (with any message) and the next one succeeds, within
  the budget, the probe returns \<open>True\<close> after \<open>k + 1\<close> queries, having slept half a
  second after each failure. If all \<open>timeout * 2\<close> queries fail it returns \<open>False\<close>
  after exactly that many queries and as many sleeps. It returns \<open>False\<close> only in that
  case: never after fewer cycles.
\<close>

theorem WaitForUSBDevice_probe_cycles:
  fixes name vendor_id product_id timeout w k out
  defines "cycles \<equiv> nat (timeout * 2)"
  defines "query \<equiv> RunCmd ''lsusb'' [''-d'', format_x False 4 vendor_id @ '':''
                                   @ format_x False 4 product_id] True"
  defines "outcome \<equiv> \<lambda>i. run_outcome w (run_calls w + i)"
  defines "result \<equiv> WaitForUSBDevice name vendor_id product_id timeout w"
  assumes "0 \<le> timeout"
  shows "int cycles = timeout * 2
       \<and> (k < cycles \<and> (\<forall>i<k. \<exists>m. outcome i = Failed m) \<and> outcome k = Completed out \<longrightarrow>
            fst result = True
          \<and> run_calls (snd result) = run_calls w + k + 1
          \<and> events (snd result) = events w
               @ [Progress ''Waiting for board to appear on USB bus'']
               @ concat (replicate k [query, Sleep 500])
               @ [query, Progress (''Found '' @ name @ '' board'')])
       \<and> ((\<forall>i<cycles. \<exists>m. outcome i = Failed m) \<longrightarrow>
            fst result = False
          \<and> run_calls (snd result) = run_calls w + cycles
          \<and> events (snd result) = events w
               @ [Progress ''Waiting for board to appear on USB bus'']
               @ concat (replicate cycles [query, Sleep 500]))
       \<and> (fst result = False \<longrightarrow>
            (\<forall>i<cycles. \<exists>m. outcome i = Failed m)
          \<and> run_calls (snd result) = run_calls w + cycles)"
proof -
  define w0 where "w0 = emit (Progress ''Waiting for board to appear on USB bus'') w"
  have r: "result = wait_loop cycles name vendor_id product_id w0"
    by (simp add: result_def WaitForUSBDevice_def cycles_def w0_def)
  have o: "\<And>i. run_outcome w0 (run_calls w0 + i) = outcome i"
    by (simp add: w0_def emit_def outcome_def)
  have 1: "int cycles = timeout * 2"
    using assms(5) by (simp add: cycles_def)
  have 2: "fst result = True
          \<and> run_calls (snd result) = run_calls w + k + 1
          \<and> events (snd result) = events w
               @ [Progress ''Waiting for board to appear on USB bus'']
               @ concat (replicate k [query, Sleep 500])
               @ [query, Progress (''Found '' @ name @ '' board'')]"
    if h: "k < cycles" "\<forall>i<k. \<exists>m. outcome i = Failed m" "outcome k = Completed out"
  proof -
    have "wait_loop cycles name vendor_id product_id w0 =
       (True,
        w0\<lparr>run_calls := run_calls w0 + k + 1,
          events := events w0 @ concat (replicate k [query, Sleep 500])
            @ [query, Progress (''Found '' @ name @ '' board'')]\<rparr>)"
      unfolding query_def using h by (intro wait_loop_found) (simp_all add: o)
    then show ?thesis
      unfolding r by (simp add: w0_def emit_def)
  qed
  have 3: "fst result = False
          \<and> run_calls (snd result) = run_calls w + cycles
          \<and> events (snd result) = events w
               @ [Progress ''Waiting for board to appear on USB bus'']
               @ concat (replicate cycles [query, Sleep 500])"
    if h: "\<forall>i<cycles. \<exists>m. outcome i = Failed m"
  proof -
    have "wait_loop cycles name vendor_id product_id w0 =
       (False,
        w0\<lparr>run_calls := run_calls w0 + cycles,
          events := events w0 @ concat (replicate cycles [query, Sleep 500])\<rparr>)"
      unfolding query_def using h by (intro wait_loop_all_fail) (simp add: o)
    then show ?thesis
      unfolding r by (simp add: w0_def emit_def)
  qed
  have 4: "\<forall>i<cycles. \<exists>m. outcome i = Failed m" if "fst result = False"
    using wait_loop_False_all_fail [of cycles name vendor_id product_id w0] that
    by (simp add: r o)
  from 1 2 3 4 show ?thesis
    by blast
qed

theorem WaitForUSBDevice_probe_cycles_witness:
  "fst (WaitForUSBDevice ''exynos'' 0x04e8 0x1234 4
          (sample_world (\<lambda>n. if n < 3 then Failed ''unable to initialize libusb''
                              else Completed []) True (\<lambda>script. script))) = True
   \<and> events (snd (WaitForUSBDevice ''exynos'' 0x04e8 0x1234 4
          (sample_world (\<lambda>n. if n < 3 then Failed ''unable to initialize libusb''
                              else Completed []) True (\<lambda>script. script))))
      = [Progress ''Waiting for board to appear on USB bus'',
         RunCmd ''lsusb'' [''-d'', ''04e8:1234''] True, Sleep 500,
         RunCmd ''lsusb'' [''-d'', ''04e8:1234''] True, Sleep 500,
         RunCmd ''lsusb'' [''-d'', ''04e8:1234''] True, Sleep 500,
         RunCmd ''lsusb'' [''-d'', ''04e8:1234''] True,
         Progress ''Found exynos board'']
   \<and> fst (WaitForUSBDevice ''exynos'' 0x04e8 0x1234 4
          (sample_world (\<lambda>n. Failed []) True (\<lambda>script. script))) = False
   \<and> run_calls (snd (WaitForUSBDevice ''exynos'' 0x04e8 0x1234 4
          (sample_world (\<lambda>n. Failed []) True (\<lambda>script. script)))) = 8"
  using
    WaitForUSBDevice_probe_cycles [where name = "''exynos''" and vendor_id = "0x04e8"
      and product_id = "0x1234" and timeout = 4 and k = 3 and out = "[]"
      and w = "sample_world (\<lambda>n. if n < 3 then Failed ''unable to initialize libusb''
                              else Completed []) True (\<lambda>script. script)"]
    WaitForUSBDevice_probe_cycles [where name = "''exynos''" and vendor_id = "0x04e8"
      and product_id = "0x1234" and timeout = 4 and k = 0 and out = "[]"
      and w = "sample_world (\<lambda>n. Failed []) True (\<lambda>script. script)"]
  by (simp add: sample_world_def format_x_samples replicate_numeral)

subsection \<open>\_ExynosFlashImage\<close>

lemma PrepareFlasher_world:
  "\<exists>es. snd (PrepareFlasher self uboot payload update verify boot_type bus w)
          = w\<lparr>events := events w @ es\<rparr>"
  unfolding PrepareFlasher_normal_form by auto

lemma wait_loop_events:
  "\<exists>es. events (snd (wait_loop n name vendor_id product_id w)) = events w @ es"
proof (induction n arbitrary: w)
  case 0
  then show ?case by simp
next
  case (Suc n)
  show ?case
  proof (cases "run_outcome w (run_calls w)")
    case (Completed out)
    then show ?thesis
      by (simp add: Run_def emit_def Let_def)
  next
    case (Failed m)
    let ?w1 = "emit (Sleep 500) (snd (Run ''lsusb'' [''-d'', format_x False 4 vendor_id @ '':''
                                   @ format_x False 4 product_id] True w))"
    from Suc.IH [of ?w1] obtain es where
      "events (snd (wait_loop n name vendor_id product_id ?w1)) = events ?w1 @ es"
      by blast
    with Failed show ?thesis
      by (simp add: Run_def emit_def Let_def)
  qed
qed

lemma WaitForUSBDevice_events:
  "\<exists>es. events (snd (WaitForUSBDevice name vendor_id product_id timeout w)) = events w @ es"
proof -
  from wait_loop_events obtain es where
    "events (snd (wait_loop (nat (timeout * 2)) name vendor_id product_id
        (emit (Progress ''Waiting for board to appear on USB bus'') w)))
     = events (emit (Progress ''Waiting for board to appear on USB bus'') w) @ es"
    by blast
  then show ?thesis
    by (simp add: WaitForUSBDevice_def emit_def)
qed

lemma download_loop_events:
  "\<exists>es. events (snd (download_loop items first vendor_id product_id w)) = events w @ es"
proof (induction items arbitrary: first w)
  case Nil
  then show ?case by simp
next
  case (Cons item items)
  obtain found w1 where p: "WaitForUSBDevice ''exynos'' vendor_id product_id 4 w = (found, w1)"
    by (cases "WaitForUSBDevice ''exynos'' vendor_id product_id 4 w")
  from WaitForUSBDevice_events [of "''exynos''" vendor_id product_id 4 w] p
  obtain es1 where es1: "events w1 = events w @ es1"
    by auto
  show ?case
  proof (cases found)
    case False
    with p es1 show ?thesis by simp
  next
    case True
    let ?w2 = "emit (Sleep 1000) (emit (Progress (''Uploading stage '' @ quoted (fst item)))
                 (emit (Notice (snd (snd item))) w1))"
    let ?args = "[''-a'', format_x True 0 (fst (snd item)), ''-f'', snd (snd item)]"
    show ?thesis
    proof (cases "run_outcome ?w2 (run_calls ?w2)")
      case (Failed m)
      with True p es1 show ?thesis
        by (simp add: Run_def emit_def Let_def)
    next
      case (Completed out)
      from Cons.IH [of False "snd (Run ''smdk-usbdl'' ?args True ?w2)"] obtain es where
        "events (snd (download_loop items False vendor_id product_id
            (snd (Run ''smdk-usbdl'' ?args True ?w2))))
         = events (snd (Run ''smdk-usbdl'' ?args True ?w2)) @ es"
        by blast
      with Completed True p es1 show ?thesis
        by (simp add: Run_def emit_def Let_def)
    qed
  qed
qed

lemma ExynosFlashImage_after_reset:
  fixes self uboot bl1 bl2 payload w
  defines "w1 \<equiv> snd (PrepareFlasher self uboot payload (wf_update self) (wf_verify self)
                        ''Spi'' ''1:0'' w)"
  defines "reset \<equiv> RunCmd ''dut-control''
             [''cold_reset:on'', ''sleep:.2'', ''cold_reset:off'', ''warm_reset:on'', ''fw_up:on'',
              ''pwr_button:press'', ''sleep:.1'', ''warm_reset:off''] False"
  defines "w3 \<equiv> w1\<lparr>run_calls := Suc (run_calls w),
                      events := events w1 @ [Progress ''Reseting board via servo'', reset,
                                  Sleep 2000, Progress ''Uploading flasher image'']\<rparr>"
  assumes prepared: "fst (PrepareFlasher self uboot payload (wf_update self) (wf_verify self)
                        ''Spi'' ''1:0'' w) = Inr flasher"
      and reset_ok: "run_outcome w (run_calls w) = Completed out"
  shows "ExynosFlashImage self uboot bl1 bl2 payload w =
     (let (r, w4) = download_loop [(''bl1'', 0x02021400, bl1), (''bl2'', 0x02023400, bl2),
                                   (''u-boot'', 0x43e00000, flasher)] True 0x04e8 0x1234 w3
      in case Run ''dut-control'' [''fw_up:off'', ''pwr_button:release''] False w4 of
           (Failed msg, w5) \<Rightarrow> (Inl (CmdError msg), w5)
         | (Completed out, w5) \<Rightarrow>
             (case r of
                Inl e \<Rightarrow> (Inl e, w5)
              | Inr u \<Rightarrow>
                  (Inr True,
                   emit (Notice ''Flasher downloaded - please see serial output for progress.'') w5)))"
proof -
  obtain es where es: "w1 = w\<lparr>events := events w @ es\<rparr>"
    using PrepareFlasher_world unfolding w1_def by blast
  have p: "PrepareFlasher self uboot payload (wf_update self) (wf_verify self)
                        ''Spi'' ''1:0'' w = (Inr flasher, w1)"
    using prepared unfolding w1_def by (metis prod.collapse)
  have o: "run_outcome w1 (run_calls w1) = Completed out"
    using reset_ok by (simp add: es)
  have w3: "w3 = w1\<lparr>run_calls := Suc (run_calls w1),
                      events := events w1 @ [Progress ''Reseting board via servo'', reset,
                                  Sleep 2000, Progress ''Uploading flasher image'']\<rparr>"
    by (simp add: w3_def es)
  obtain r w4 where d: "download_loop [(''bl1'', 0x02021400, bl1), (''bl2'', 0x02023400, bl2),
                                   (''u-boot'', 0x43e00000, flasher)] True 0x04e8 0x1234
           (w1\<lparr>run_calls := Suc (run_calls w1),
                      events := events w1 @ [Progress ''Reseting board via servo'', reset,
                                  Sleep 2000, Progress ''Uploading flasher image'']\<rparr>) = (r, w4)"
    by (metis surj_pair)
  show ?thesis
    unfolding ExynosFlashImage_def p w3 reset_def
    using d [unfolded reset_def]
    by (simp add: Let_def Run_def emit_def o del: download_loop.simps
          split: run_result.splits sum.splits)
qed

lemma ExynosFlashImage_cleanup:
  fixes self uboot bl1 bl2 payload w
  defines "w1 \<equiv> snd (PrepareFlasher self uboot payload (wf_update self) (wf_verify self)
                        ''Spi'' ''1:0'' w)"
  assumes prepared: "fst (PrepareFlasher self uboot payload (wf_update self) (wf_verify self)
                        ''Spi'' ''1:0'' w) = Inr flasher"
      and reset_ok: "run_outcome w (run_calls w) = Completed out"
  shows "\<exists>es es'. events (snd (ExynosFlashImage self uboot bl1 bl2 payload w))
            = events w1 @ es
                @ [RunCmd ''dut-control'' [''fw_up:off'', ''pwr_button:release''] False] @ es'
          \<and> (es' = [] \<or> es' = [Notice
                 ''Flasher downloaded - please see serial output for progress.''])"
proof -
  let ?reset = "RunCmd ''dut-control''
             [''cold_reset:on'', ''sleep:.2'', ''cold_reset:off'', ''warm_reset:on'', ''fw_up:on'',
              ''pwr_button:press'', ''sleep:.1'', ''warm_reset:off''] False"
  let ?w3 = "w1\<lparr>run_calls := Suc (run_calls w),
                      events := events w1 @ [Progress ''Reseting board via servo'', ?reset,
                                  Sleep 2000, Progress ''Uploading flasher image'']\<rparr>"
  let ?dl = "download_loop [(''bl1'', 0x02021400, bl1), (''bl2'', 0x02023400, bl2),
                                   (''u-boot'', 0x43e00000, flasher)] True 0x04e8 0x1234 ?w3"
  obtain r w4 where d: "?dl = (r, w4)"
    by (metis surj_pair)
  from download_loop_events [of "[(''bl1'', 0x02021400, bl1), (''bl2'', 0x02023400, bl2),
                                   (''u-boot'', 0x43e00000, flasher)]" True "0x04e8" "0x1234" ?w3] d
  obtain es where es: "events w4 = events w1 @ [Progress ''Reseting board via servo'', ?reset,
                                  Sleep 2000, Progress ''Uploading flasher image''] @ es"
    by auto
  have e: "ExynosFlashImage self uboot bl1 bl2 payload w =
     (case Run ''dut-control'' [''fw_up:off'', ''pwr_button:release''] False w4 of
           (Failed msg, w5) \<Rightarrow> (Inl (CmdError msg), w5)
         | (Completed out, w5) \<Rightarrow>
             (case r of
                Inl e \<Rightarrow> (Inl e, w5)
              | Inr u \<Rightarrow>
                  (Inr True,
                   emit (Notice ''Flasher downloaded - please see serial output for progress.'') w5)))"
    using ExynosFlashImage_after_reset [OF prepared reset_ok, of bl1 bl2] d
    unfolding w1_def by simp
  show ?thesis
  proof (cases "run_outcome w4 (run_calls w4)")
    case (Failed m)
    then have "events (snd (ExynosFlashImage self uboot bl1 bl2 payload w))
            = events w1 @ ([Progress ''Reseting board via servo'', ?reset,
                                  Sleep 2000, Progress ''Uploading flasher image''] @ es)
                @ [RunCmd ''dut-control'' [''fw_up:off'', ''pwr_button:release''] False] @ []"
      unfolding e by (simp add: Run_def es)
    then show ?thesis
      by blast
  next
    case (Completed out')
    show ?thesis
    proof (cases r)
      case (Inl x)
      with Completed have "events (snd (ExynosFlashImage self uboot bl1 bl2 payload w))
            = events w1 @ ([Progress ''Reseting board via servo'', ?reset,
                                  Sleep 2000, Progress ''Uploading flasher image''] @ es)
                @ [RunCmd ''dut-control'' [''fw_up:off'', ''pwr_button:release''] False] @ []"
        unfolding e by (simp add: Run_def es)
      then show ?thesis
        by blast
    next
      case (Inr u)
      with Completed have "events (snd (ExynosFlashImage self uboot bl1 bl2 payload w))
            = events w1 @ ([Progress ''Reseting board via servo'', ?reset,
                                  Sleep 2000, Progress ''Uploading flasher image''] @ es)
                @ [RunCmd ''dut-control'' [''fw_up:off'', ''pwr_button:release''] False]
                @ [Notice ''Flasher downloaded - please see serial output for progress.'']"
        unfolding e by (simp add: Run_def emit_def es)
      then show ?thesis
        by blast
    qed
  qed
qed

lemma ExynosFlashImage_events:
  "\<exists>es. events (snd (ExynosFlashImage self uboot bl1 bl2 payload w))
          = events (snd (PrepareFlasher self uboot payload (wf_update self) (wf_verify self)
                           ''Spi'' ''1:0'' w)) @ es"
proof -
  let ?p = "PrepareFlasher self uboot payload (wf_update self) (wf_verify self) ''Spi'' ''1:0'' w"
  obtain es0 where es0: "snd ?p = w\<lparr>events := events w @ es0\<rparr>"
    using PrepareFlasher_world by blast
  obtain r1 w1 where p: "?p = (r1, w1)"
    by (metis surj_pair)
  show ?thesis
  proof (cases r1)
    case (Inl e)
    then have "events (snd (ExynosFlashImage self uboot bl1 bl2 payload w)) = events (snd ?p) @ []"
      unfolding ExynosFlashImage_def p by simp
    then show ?thesis
      by blast
  next
    case (Inr flasher)
    then have f: "fst ?p = Inr flasher"
      by (simp add: p)
    show ?thesis
    proof (cases "run_outcome w (run_calls w)")
      case (Failed m)
      then have "run_outcome w1 (run_calls w1) = Failed m"
        using es0 by (simp add: p)
      then have "\<exists>es. events (snd (ExynosFlashImage self uboot bl1 bl2 payload w))
                   = events (snd ?p) @ es"
        unfolding ExynosFlashImage_def p Inr by (simp add: Let_def Run_def emit_def)
      then show ?thesis .
    next
      case (Completed out)
      from ExynosFlashImage_cleanup [OF f Completed, of bl1 bl2] show ?thesis
        by (metis append.assoc)
    qed
  qed
qed

lemma ExynosFlashImage_first_probe_fails:
  fixes self uboot bl1 bl2 payload w
  defines "w1 \<equiv> snd (PrepareFlasher self uboot payload (wf_update self) (wf_verify self)
                        ''Spi'' ''1:0'' w)"
  assumes prepared: "fst (PrepareFlasher self uboot payload (wf_update self) (wf_verify self)
                        ''Spi'' ''1:0'' w) = Inr flasher"
      and reset_ok: "run_outcome w (run_calls w) = Completed out"
      and absent: "\<forall>i<8. \<exists>m. run_outcome w (run_calls w + 1 + i) = Failed m"
  shows "ExynosFlashImage self uboot bl1 bl2 payload w =
     ((case run_outcome w (run_calls w + 9) of
         Completed out \<Rightarrow> Inl (CmdError ''Could not find Exynos board on USB port'')
       | Failed msg \<Rightarrow> Inl (CmdError msg)),
      w1\<lparr>run_calls := run_calls w + 10,
         events := events w1 @
           [Progress ''Reseting board via servo'',
            RunCmd ''dut-control''
             [''cold_reset:on'', ''sleep:.2'', ''cold_reset:off'', ''warm_reset:on'', ''fw_up:on'',
              ''pwr_button:press'', ''sleep:.1'', ''warm_reset:off''] False,
            Sleep 2000,
            Progress ''Uploading flasher image'',
            Progress ''Waiting for board to appear on USB bus'']
           @ concat (replicate 8 [RunCmd ''lsusb'' [''-d'', ''04e8:1234''] True, Sleep 500])
           @ [RunCmd ''dut-control'' [''fw_up:off'', ''pwr_button:release''] False]\<rparr>)"
proof -
  let ?reset = "RunCmd ''dut-control''
             [''cold_reset:on'', ''sleep:.2'', ''cold_reset:off'', ''warm_reset:on'', ''fw_up:on'',
              ''pwr_button:press'', ''sleep:.1'', ''warm_reset:off''] False"
  let ?w3 = "w1\<lparr>run_calls := Suc (run_calls w),
                      events := events w1 @ [Progress ''Reseting board via servo'', ?reset,
                                  Sleep 2000, Progress ''Uploading flasher image'']\<rparr>"
  let ?w3' = "emit (Progress ''Waiting for board to appear on USB bus'') ?w3"
  obtain es where es: "w1 = w\<lparr>events := events w @ es\<rparr>"
    using PrepareFlasher_world unfolding w1_def by blast
  have "\<forall>i<8. \<exists>m. run_outcome ?w3' (run_calls ?w3' + i) = Failed m"
    using absent by (simp add: emit_def es)
  from wait_loop_all_fail [OF this, of "''exynos''" "0x04e8" "0x1234"]
  have wl: "WaitForUSBDevice ''exynos'' 0x04e8 0x1234 4 ?w3 =
       (False,
        ?w3'\<lparr>run_calls := run_calls ?w3' + 8,
          events := events ?w3' @ concat (replicate 8
            [RunCmd ''lsusb'' [''-d'', ''04e8:1234''] True, Sleep 500])\<rparr>)"
    by (simp add: WaitForUSBDevice_def format_x_samples)
  have e: "ExynosFlashImage self uboot bl1 bl2 payload w =
     (let (r, w4) = download_loop [(''bl1'', 0x02021400, bl1), (''bl2'', 0x02023400, bl2),
                                   (''u-boot'', 0x43e00000, flasher)] True 0x04e8 0x1234 ?w3
      in case Run ''dut-control'' [''fw_up:off'', ''pwr_button:release''] False w4 of
           (Failed msg, w5) \<Rightarrow> (Inl (CmdError msg), w5)
         | (Completed out, w5) \<Rightarrow>
             (case r of
                Inl e \<Rightarrow> (Inl e, w5)
              | Inr u \<Rightarrow>
                  (Inr True,
                   emit (Notice ''Flasher downloaded - please see serial output for progress.'') w5)))"
    using ExynosFlashImage_after_reset [OF prepared reset_ok, of bl1 bl2]
    unfolding w1_def by simp
  have dl: "download_loop [(''bl1'', 0x02021400, bl1), (''bl2'', 0x02023400, bl2),
                                   (''u-boot'', 0x43e00000, flasher)] True 0x04e8 0x1234 ?w3 =
       (Inl (CmdError ''Could not find Exynos board on USB port''),
        ?w3'\<lparr>run_calls := run_calls ?w3' + 8,
          events := events ?w3' @ concat (replicate 8
            [RunCmd ''lsusb'' [''-d'', ''04e8:1234''] True, Sleep 500])\<rparr>)"
    by (simp add: wl)
  show ?thesis
    unfolding e dl
    by (auto simp add: Run_def emit_def es add.commute split: run_result.splits)
qed

text \<open>
  C6. Once the flasher is prepared and the reset command has succeeded, the
  command releasing the control lines is issued on every exit of the stage loop: it is
  the last command run, followed at most by the closing notice. If the eight probe
  cycles before stage \<open>bl1\<close> all fail, no \<open>smdk-usbdl\<close> transfer is attempted, the release
  command is still issued, and the method raises \<open>Could not find Exynos board on USB
  port\<close> (not the stall message of a stage) provided the release command itself
  succeeds; when the release command fails, its error is the one raised.
\<close>

theorem ExynosFlashImage_board_not_found:
  fixes self uboot bl1 bl2 payload w
  defines "w1 \<equiv> snd (PrepareFlasher self uboot payload (wf_update self) (wf_verify self)
                        ''Spi'' ''1:0'' w)"
  defines "result \<equiv> ExynosFlashImage self uboot bl1 bl2 payload w"
  defines "cleanup \<equiv> RunCmd ''dut-control'' [''fw_up:off'', ''pwr_button:release''] False"
  assumes prepared: "fst (PrepareFlasher self uboot payload (wf_update self) (wf_verify self)
                        ''Spi'' ''1:0'' w) = Inr flasher"
      and reset_ok: "run_outcome w (run_calls w) = Completed out"
  shows "(\<exists>es es'. events (snd result) = events w1 @ es @ [cleanup] @ es'
            \<and> (es' = [] \<or> es' = [Notice
                   ''Flasher downloaded - please see serial output for progress.'']))
       \<and> ((\<forall>i<8. \<exists>m. run_outcome w (run_calls w + 1 + i) = Failed m) \<longrightarrow>
            events (snd result) = events w1 @
              [Progress ''Reseting board via servo'',
               RunCmd ''dut-control''
                 [''cold_reset:on'', ''sleep:.2'', ''cold_reset:off'', ''warm_reset:on'',
                  ''fw_up:on'', ''pwr_button:press'', ''sleep:.1'', ''warm_reset:off''] False,
               Sleep 2000,
               Progress ''Uploading flasher image'',
               Progress ''Waiting for board to appear on USB bus'']
              @ concat (replicate 8 [RunCmd ''lsusb'' [''-d'', ''04e8:1234''] True, Sleep 500])
              @ [cleanup]
          \<and> run_calls (snd result) = run_calls w + 10
          \<and> (\<forall>args sudo. RunCmd ''smdk-usbdl'' args sudo
                 \<notin> set (drop (length (events w1)) (events (snd result))))
          \<and> ((\<exists>out'. run_outcome w (run_calls w + 9) = Completed out') \<longrightarrow>
                fst result = Inl (CmdError ''Could not find Exynos board on USB port'')
              \<and> fst result \<noteq> Inl (CmdError (''Stage '' @ quoted ''bl1'' @ '' did not complete'')))
          \<and> (\<forall>msg. run_outcome w (run_calls w + 9) = Failed msg \<longrightarrow>
                fst result = Inl (CmdError msg)))"
proof -
  have 1: "\<exists>es es'. events (snd result) = events w1 @ es @ [cleanup] @ es'
            \<and> (es' = [] \<or> es' = [Notice
                   ''Flasher downloaded - please see serial output for progress.''])"
    unfolding result_def w1_def cleanup_def
    by (rule ExynosFlashImage_cleanup [OF prepared reset_ok])
  have 2: "events (snd result) = events w1 @
              [Progress ''Reseting board via servo'',
               RunCmd ''dut-control''
                 [''cold_reset:on'', ''sleep:.2'', ''cold_reset:off'', ''warm_reset:on'',
                  ''fw_up:on'', ''pwr_button:press'', ''sleep:.1'', ''warm_reset:off''] False,
               Sleep 2000,
               Progress ''Uploading flasher image'',
               Progress ''Waiting for board to appear on USB bus'']
              @ concat (replicate 8 [RunCmd ''lsusb'' [''-d'', ''04e8:1234''] True, Sleep 500])
              @ [cleanup]
          \<and> run_calls (snd result) = run_calls w + 10
          \<and> (\<forall>args sudo. RunCmd ''smdk-usbdl'' args sudo
                 \<notin> set (drop (length (events w1)) (events (snd result))))
          \<and> ((\<exists>out'. run_outcome w (run_calls w + 9) = Completed out') \<longrightarrow>
                fst result = Inl (CmdError ''Could not find Exynos board on USB port'')
              \<and> fst result \<noteq> Inl (CmdError (''Stage '' @ quoted ''bl1'' @ '' did not complete'')))
          \<and> (\<forall>msg. run_outcome w (run_calls w + 9) = Failed msg \<longrightarrow>
                fst result = Inl (CmdError msg))"
    if absent: "\<forall>i<8. \<exists>m. run_outcome w (run_calls w + 1 + i) = Failed m"
    unfolding result_def
      ExynosFlashImage_first_probe_fails [OF prepared reset_ok absent, of bl1 bl2]
    by (auto simp add: w1_def cleanup_def quoted_def)
  from 1 2 show ?thesis
    by blast
qed

theorem ExynosFlashImage_board_not_found_witness:
  "fst (ExynosFlashImage \<lparr>wf_text_base = 0x00e08000, wf_update = True, wf_verify = False\<rparr>
          ''u-boot.bin'' ''bl1.bin'' ''bl2.bin'' ''image.bin''
          (sample_world (\<lambda>n. if n = 0 then Completed []
                              else if n \<le> 8 then Failed ''no device found'' else Completed [])
             True (\<lambda>script. ''bootcmd='' @ take 40 script)))
     = Inl (CmdError ''Could not find Exynos board on USB port'')
   \<and> run_calls (snd (ExynosFlashImage
          \<lparr>wf_text_base = 0x00e08000, wf_update = True, wf_verify = False\<rparr>
          ''u-boot.bin'' ''bl1.bin'' ''bl2.bin'' ''image.bin''
          (sample_world (\<lambda>n. if n = 0 then Completed []
                              else if n \<le> 8 then Failed ''no device found'' else Completed [])
             True (\<lambda>script. ''bootcmd='' @ take 40 script)))) = 10
   \<and> last (events (snd (ExynosFlashImage
          \<lparr>wf_text_base = 0x00e08000, wf_update = True, wf_verify = False\<rparr>
          ''u-boot.bin'' ''bl1.bin'' ''bl2.bin'' ''image.bin''
          (sample_world (\<lambda>n. if n = 0 then Completed []
                              else if n \<le> 8 then Failed ''no device found'' else Completed [])
             True (\<lambda>script. ''bootcmd='' @ take 40 script)))))
     = RunCmd ''dut-control'' [''fw_up:off'', ''pwr_button:release''] False"
proof -
  let ?S = "\<lparr>wf_text_base = 0x00e08000, wf_update = True, wf_verify = False\<rparr>"
  let ?W = "sample_world (\<lambda>n. if n = 0 then Completed []
                              else if n \<le> 8 then Failed ''no device found'' else Completed [])
             True (\<lambda>script. ''bootcmd='' @ take 40 script)"
  have prepared: "fst (PrepareFlasher ?S ''u-boot.bin'' ''image.bin'' (wf_update ?S) (wf_verify ?S)
                        ''Spi'' ''1:0'' ?W) = Inr ''out/flasher-for-image.bin''"
    by (simp add: PrepareFlasher_normal_form sample_eval)
  have reset_ok: "run_outcome ?W (run_calls ?W) = Completed []"
    by (simp add: sample_world_def)
  show ?thesis
    using ExynosFlashImage_board_not_found [OF prepared reset_ok, of "''bl1.bin''" "''bl2.bin''"]
    by (simp add: sample_world_def)
qed

theorem ExynosFlashImage_cleanup_failure_counterexample:
  "fst (ExynosFlashImage \<lparr>wf_text_base = 0x00e08000, wf_update = True, wf_verify = False\<rparr>
          ''u-boot.bin'' ''bl1.bin'' ''bl2.bin'' ''image.bin''
          (sample_world (\<lambda>n. if n = 0 then Completed []
                              else if n \<le> 8 then Failed ''no device found''
                              else Failed ''dut-control: no servod'')
             True (\<lambda>script. ''bootcmd='' @ take 40 script)))
     = Inl (CmdError ''dut-control: no servod'')
   \<and> Inl (CmdError ''dut-control: no servod'')
       \<noteq> (Inl (CmdError ''Could not find Exynos board on USB port'') :: exn + bool)
   \<and> drop 7 (events (snd (ExynosFlashImage
          \<lparr>wf_text_base = 0x00e08000, wf_update = True, wf_verify = False\<rparr>
          ''u-boot.bin'' ''bl1.bin'' ''bl2.bin'' ''image.bin''
          (sample_world (\<lambda>n. if n = 0 then Completed []
                              else if n \<le> 8 then Failed ''no device found''
                              else Failed ''dut-control: no servod'')
             True (\<lambda>script. ''bootcmd='' @ take 40 script)))))
     = [Progress ''Reseting board via servo'',
        RunCmd ''dut-control''
          [''cold_reset:on'', ''sleep:.2'', ''cold_reset:off'', ''warm_reset:on'',
           ''fw_up:on'', ''pwr_button:press'', ''sleep:.1'', ''warm_reset:off''] False,
        Sleep 2000,
        Progress ''Uploading flasher image'',
        Progress ''Waiting for board to appear on USB bus'',
        RunCmd ''lsusb'' [''-d'', ''04e8:1234''] True, Sleep 500,
        RunCmd ''lsusb'' [''-d'', ''04e8:1234''] True, Sleep 500,
        RunCmd ''lsusb'' [''-d'', ''04e8:1234''] True, Sleep 500,
        RunCmd ''lsusb'' [''-d'', ''04e8:1234''] True, Sleep 500,
        RunCmd ''lsusb'' [''-d'', ''04e8:1234''] True, Sleep 500,
        RunCmd ''lsusb'' [''-d'', ''04e8:1234''] True, Sleep 500,
        RunCmd ''lsusb'' [''-d'', ''04e8:1234''] True, Sleep 500,
        RunCmd ''lsusb'' [''-d'', ''04e8:1234''] True, Sleep 500,
        RunCmd ''dut-control'' [''fw_up:off'', ''pwr_button:release''] False]"
proof -
  let ?S = "\<lparr>wf_text_base = 0x00e08000, wf_update = True, wf_verify = False\<rparr>"
  let ?W = "sample_world (\<lambda>n. if n = 0 then Completed []
                              else if n \<le> 8 then Failed ''no device found''
                              else Failed ''dut-control: no servod'')
             True (\<lambda>script. ''bootcmd='' @ take 40 script)"
  have prepared: "fst (PrepareFlasher ?S ''u-boot.bin'' ''image.bin'' (wf_update ?S) (wf_verify ?S)
                        ''Spi'' ''1:0'' ?W) = Inr ''out/flasher-for-image.bin''"
    by (simp add: PrepareFlasher_normal_form sample_eval)
  have reset_ok: "run_outcome ?W (run_calls ?W) = Completed []"
    by (simp add: sample_world_def)
  have absent: "\<forall>i<8. \<exists>m. run_outcome ?W (run_calls ?W + 1 + i) = Failed m"
    by (simp add: sample_world_def)
  have eight: "\<And>x :: event list. replicate 8 x = [x, x, x, x, x, x, x, x]"
    by (simp add: replicate_numeral)
  show ?thesis
    unfolding ExynosFlashImage_first_probe_fails [OF prepared reset_ok absent,
        of "''bl1.bin''" "''bl2.bin''"]
    by (simp add: PrepareFlasher_normal_form sample_eval eight)
qed

text \<open>
  C10. \<open>_ExynosFlashImage\<close> prepares the flasher with boot type \<open>Spi\<close>, which is not
  \<open>spi\<close>: the script it stores in the configuration is the one for \<open>Spi\<close> and bus
  \<open>1:0\<close>. Its commands are those for \<open>update = False\<close> whatever the session's update
  setting is: they contain \<open>run _erase\<close> and \<open>run _write\<close> and not \<open>time run _update\<close>,
  use the SPI command templates, and round the length up to pages of 4096 bytes. The
  script itself contains \<open>run _erase\<close> and \<open>run _write\<close>, nowhere contains
  \<open>time run _update\<close>, and is exactly the text below.
\<close>

theorem ExynosFlashImage_boot_type_Spi:
  fixes self uboot bl1 bl2 payload w
  defines "payload_data \<equiv> file_contents w payload"
  defines "checksum \<equiv> binascii_crc32 payload_data AND 0xffffffff"
  defines "cmds \<equiv> flash_cmds (int (length payload_data)) (wf_update self) (wf_verify self)
                      ''Spi'' checksum ''1:0''"
  shows \<open>''Spi'' \<noteq> ''spi''
       \<and> FdtPutString ''/config'' ''bootcmd'' (join ''; '' cmds)
            \<in> set (events (snd (ExynosFlashImage self uboot bl1 bl2 payload w)))
       \<and> cmds = flash_cmds (int (length payload_data)) False (wf_verify self)
                      ''Spi'' checksum ''1:0''
       \<and> ''run _erase'' \<in> set cmds
       \<and> ''run _write'' \<in> set cmds
       \<and> ''time run _update'' \<notin> set cmds
       \<and> ''setenv _init   "echo Init SPI;   sf probe            1:0"'' \<in> set cmds
       \<and> ''setenv _erase  "echo Erase SPI;  sf erase            0 ${length}"'' \<in> set cmds
       \<and> ''setenv _write  "echo Write SPI;  sf write ${address} 0 ${length}"'' \<in> set cmds
       \<and> ''setenv _read   "echo Read SPI;   sf read  ${address} 0 ${length}"'' \<in> set cmds
       \<and> cmds ! 2 = ''setenv length        ''
                        @ format_x True 0 (RoundUp (int (length payload_data)) 4096)
       \<and> contains ''run _erase'' (join ''; '' cmds)
       \<and> contains ''run _write'' (join ''; '' cmds)
       \<and> \<not> contains ''time run _update'' (join ''; '' cmds)
       \<and> join ''; '' cmds
           = ''setenv address       0xzsHEXYla; ''
             @ ''setenv firmware_size '' @ format_x True 0 (int (length payload_data)) @ ''; ''
             @ ''setenv length        ''
               @ format_x True 0 (RoundUp (int (length payload_data)) 4096) @ ''; ''
             @ ''setenv blocks   ''
               @ format_x True 0 (RoundUp (int (length payload_data)) 4096 div 4096) @ ''; ''
             @ ''setenv _crc    "crc32 -v ${address} ${firmware_size} ''
               @ format_x True 8 checksum @ ''"; ''
             @ ''setenv _clear  "echo Clearing RAM; mw.b     ${address} 0 ${length}"; ''
             @ ''setenv _init   "echo Init SPI;   sf probe            1:0"; ''
             @ ''setenv _erase  "echo Erase SPI;  sf erase            0 ${length}"; ''
             @ ''setenv _write  "echo Write SPI;  sf write ${address} 0 ${length}"; ''
             @ ''setenv _read   "echo Read SPI;   sf read  ${address} 0 ${length}"; ''
             @ ''setenv _update "echo Update SPI; sf update ${address} 0 ${length}"; ''
             @ ''echo Firmware loaded to ${address}, size ${firmware_size}, length ${length}; ''
             @ ''if run _crc; then; ''
             @ ''run _init; ''
             @ ''run _erase; run _write; ''
             @ (if wf_verify self then ''run _clear; run _read; run _crc; ''
                else ''echo Skipping verify; '')
             @ ''else; ''
             @ ''echo; ''
             @ ''echo "** Checksum error on load: please check download tool **"; ''
             @ ''fi''\<close>
proof -
  let ?p = "PrepareFlasher self uboot payload (wf_update self) (wf_verify self) ''Spi'' ''1:0'' w"
  have "FdtPutString ''/config'' ''bootcmd'' (join ''; '' cmds) \<in> set (events (snd ?p))"
    unfolding PrepareFlasher_normal_form cmds_def checksum_def payload_data_def by simp
  moreover obtain es where
    "events (snd (ExynosFlashImage self uboot bl1 bl2 payload w)) = events (snd ?p) @ es"
    using ExynosFlashImage_events by blast
  ultimately have put: "FdtPutString ''/config'' ''bootcmd'' (join ''; '' cmds)
            \<in> set (events (snd (ExynosFlashImage self uboot bl1 bl2 payload w)))"
    by simp
  have r: \<open>cmds = flash_cmds (int (length payload_data)) False (wf_verify self)
                      ''Spi'' checksum ''1:0''\<close>
    \<open>''run _erase'' \<in> set cmds\<close>
    \<open>''run _write'' \<in> set cmds\<close>
    \<open>''time run _update'' \<notin> set cmds\<close>
    \<open>''setenv _init   "echo Init SPI;   sf probe            1:0"'' \<in> set cmds\<close>
    \<open>''setenv _erase  "echo Erase SPI;  sf erase            0 ${length}"'' \<in> set cmds\<close>
    \<open>''setenv _write  "echo Write SPI;  sf write ${address} 0 ${length}"'' \<in> set cmds\<close>
    \<open>''setenv _read   "echo Read SPI;   sf read  ${address} 0 ${length}"'' \<in> set cmds\<close>
    \<open>cmds ! 2 = ''setenv length        ''
                        @ format_x True 0 (RoundUp (int (length payload_data)) 4096)\<close>
    unfolding cmds_def by (simp_all add: flash_cmds_def Let_def)
  have e: "contains ''run _erase'' (join ''; '' cmds)"
    unfolding cmds_def
    using erase_in_script [of "int (length payload_data)" "wf_update self" "wf_verify self"
        "''Spi''" checksum "''1:0''"]
    by (simp add: GetFlashScript_def)
  have wr: "contains ''run _write'' (join ''; '' cmds)"
    unfolding cmds_def
    using write_in_script [of "int (length payload_data)" "wf_update self" "wf_verify self"
        "''Spi''" checksum "''1:0''"]
    by (simp add: GetFlashScript_def)
  have u: "\<not> contains ''time run _update'' (join ''; '' cmds)"
    unfolding cmds_def
    using update_in_script [of "int (length payload_data)" "wf_update self" "wf_verify self"
        "''Spi''" checksum "''1:0''"]
    by (simp add: GetFlashScript_def)
  have t: \<open>join ''; '' cmds
           = ''setenv address       0xzsHEXYla; ''
             @ ''setenv firmware_size '' @ format_x True 0 (int (length payload_data)) @ ''; ''
             @ ''setenv length        ''
               @ format_x True 0 (RoundUp (int (length payload_data)) 4096) @ ''; ''
             @ ''setenv blocks   ''
               @ format_x True 0 (RoundUp (int (length payload_data)) 4096 div 4096) @ ''; ''
             @ ''setenv _crc    "crc32 -v ${address} ${firmware_size} ''
               @ format_x True 8 checksum @ ''"; ''
             @ ''setenv _clear  "echo Clearing RAM; mw.b     ${address} 0 ${length}"; ''
             @ ''setenv _init   "echo Init SPI;   sf probe            1:0"; ''
             @ ''setenv _erase  "echo Erase SPI;  sf erase            0 ${length}"; ''
             @ ''setenv _write  "echo Write SPI;  sf write ${address} 0 ${length}"; ''
             @ ''setenv _read   "echo Read SPI;   sf read  ${address} 0 ${length}"; ''
             @ ''setenv _update "echo Update SPI; sf update ${address} 0 ${length}"; ''
             @ ''echo Firmware loaded to ${address}, size ${firmware_size}, length ${length}; ''
             @ ''if run _crc; then; ''
             @ ''run _init; ''
             @ ''run _erase; run _write; ''
             @ (if wf_verify self then ''run _clear; run _read; run _crc; ''
                else ''echo Skipping verify; '')
             @ ''else; ''
             @ ''echo; ''
             @ ''echo "** Checksum error on load: please check download tool **"; ''
             @ ''fi''\<close>
    unfolding cmds_def by (simp add: flash_cmds_def Let_def)
  have s: "''Spi'' \<noteq> ''spi''"
    by simp
  show ?thesis
    by (intro conjI s put r e wr u t)
qed

theorem ExynosFlashImage_boot_type_Spi_witness:
  "''time run _update'' \<notin> set (flash_cmds 7 True False ''Spi'' 0x7d69940f ''1:0'')
   \<and> ''run _erase'' \<in> set (flash_cmds 7 True False ''Spi'' 0x7d69940f ''1:0'')
   \<and> \<not> contains ''time run _update''
         (join ''; '' (flash_cmds 7 True False ''Spi'' 0x7d69940f ''1:0''))
   \<and> contains ''run _erase''
         (join ''; '' (flash_cmds 7 True False ''Spi'' 0x7d69940f ''1:0''))
   \<and> contains ''run _write''
         (join ''; '' (flash_cmds 7 True False ''Spi'' 0x7d69940f ''1:0''))
   \<and> FdtPutString ''/config'' ''bootcmd''
        (join ''; '' (flash_cmds 7 True False ''Spi'' 0x7d69940f ''1:0''))
       \<in> set (events (snd (ExynosFlashImage
            \<lparr>wf_text_base = 0x00e08000, wf_update = True, wf_verify = False\<rparr>
            ''u-boot.bin'' ''bl1.bin'' ''bl2.bin'' ''image.bin''
            (sample_world (\<lambda>n. Completed []) True (\<lambda>script. ''bootcmd='' @ take 40 script)))))"
  using ExynosFlashImage_boot_type_Spi [where
      self = "\<lparr>wf_text_base = 0x00e08000, wf_update = True, wf_verify = False\<rparr>"
      and uboot = "''u-boot.bin''" and ?bl1.0 = "''bl1.bin''" and ?bl2.0 = "''bl2.bin''"
      and payload = "''image.bin''"
      and w = "sample_world (\<lambda>n. Completed []) True (\<lambda>script. ''bootcmd='' @ take 40 script)"]
  by (auto simp add: sample_world_def crc32_samples)

subsection \<open>\_NvidiaFlashImage\<close>

lemma notices_spec_transient_events:
  "notices (spec_transient_events args prev ms) =
     (case prev of None \<Rightarrow> remdups_adj ms | Some p \<Rightarrow> tl (remdups_adj (p # ms)))"
proof (induction ms arbitrary: prev)
  case Nil
  then show ?case by (simp add: notices_def split: option.splits)
next
  case (Cons m ms)
  have "notices (spec_transient_events args (Some m) ms) = tl (remdups_adj (m # ms))"
    using Cons.IH [of "Some m"] by simp
  then show ?case
    by (auto simp add: notices_def split: option.splits)
qed

lemma sleeps_spec_transient_events:
  "filter (\<lambda>e. e = Sleep 1000) (spec_transient_events args prev ms)
     = replicate (length ms) (Sleep 1000)"
  by (induction ms arbitrary: prev) simp_all

lemma runs_spec_transient_events:
  "filter (\<lambda>e. e = RunCmd ''nvflash'' args True) (spec_transient_events args prev ms)
     = replicate (length ms) (RunCmd ''nvflash'' args True)"
  by (induction ms arbitrary: prev) simp_all

lemma nvflash_loop_step:
  assumes m: "run_outcome w (run_calls w) = Failed m" "contains ''USB device not found'' m"
      and tty: "stdout_is_tty w"
  shows "nvflash_loop (Suc k) args prev w =
           nvflash_loop k args (Some m)
             (w\<lparr>run_calls := Suc (run_calls w),
                events := events w @ RunCmd ''nvflash'' args True
                  # (if Some m \<noteq> prev
                     then [Notice m,
                           Progress ''Please connect USB A-A cable and do a recovery-reset'']
                     else [])
                  @ [Sleep 1000]\<rparr>)"
  apply (subst nvflash_loop.simps)
  apply (simp only: Run_def prod.case m run_result.case)
  apply (simp only: emit_def)
  apply (cases "Some m = prev")
   apply (simp_all add: tty m)
  done

lemma nvflash_loop_transient:
  assumes "stdout_is_tty w"
      and "length ms \<le> n"
      and "\<forall>i<length ms. run_outcome w (run_calls w + i) = Failed (ms ! i)
              \<and> contains ''USB device not found'' (ms ! i)"
  shows "nvflash_loop n args prev w =
           nvflash_loop (n - length ms) args (if ms = [] then prev else Some (last ms))
             (w\<lparr>run_calls := run_calls w + length ms,
                events := events w @ spec_transient_events args prev ms\<rparr>)"
  using assms
proof (induction ms arbitrary: n prev w)
  case Nil
  then show ?case by simp
next
  case (Cons m ms)
  from Cons.prems(2) obtain k where n: "n = Suc k" and k: "length ms \<le> k"
    by (cases n) auto
  have "0 < length (m # ms)"
    by simp
  with Cons.prems(3) have "run_outcome w (run_calls w + 0) = Failed ((m # ms) ! 0)
              \<and> contains ''USB device not found'' ((m # ms) ! 0)"
    by blast
  then have m: "run_outcome w (run_calls w) = Failed m"
      "contains ''USB device not found'' m"
    by simp_all
  define w1 where "w1 = w\<lparr>run_calls := Suc (run_calls w),
      events := events w @ RunCmd ''nvflash'' args True
       # (if Some m \<noteq> prev
          then [Notice m, Progress ''Please connect USB A-A cable and do a recovery-reset'']
          else [])
       @ [Sleep 1000]\<rparr>"
  have step: "nvflash_loop (Suc k) args prev w = nvflash_loop k args (Some m) w1"
    unfolding w1_def by (rule nvflash_loop_step [OF m Cons.prems(1)])
  have tty1: "stdout_is_tty w1"
    using Cons.prems(1) by (simp add: w1_def)
  have rest: "\<forall>i<length ms. run_outcome w1 (run_calls w1 + i) = Failed (ms ! i)
              \<and> contains ''USB device not found'' (ms ! i)"
  proof (intro allI impI)
    fix i assume "i < length ms"
    then have "Suc i < length (m # ms)"
      by simp
    with Cons.prems(3) have "run_outcome w (run_calls w + Suc i) = Failed ((m # ms) ! Suc i)
              \<and> contains ''USB device not found'' ((m # ms) ! Suc i)"
      by blast
    then show "run_outcome w1 (run_calls w1 + i) = Failed (ms ! i)
              \<and> contains ''USB device not found'' (ms ! i)"
      by (simp add: w1_def)
  qed
  have "nvflash_loop n args prev w = nvflash_loop k args (Some m) w1"
    unfolding n by (rule step)
  also have "\<dots> = nvflash_loop (k - length ms) args (if ms = [] then Some m else Some (last ms))
             (w1\<lparr>run_calls := run_calls w1 + length ms,
                events := events w1 @ spec_transient_events args (Some m) ms\<rparr>)"
    by (rule Cons.IH [OF tty1 k rest])
  also have "\<dots> = nvflash_loop (n - length (m # ms)) args
             (if m # ms = [] then prev else Some (last (m # ms)))
             (w\<lparr>run_calls := run_calls w + length (m # ms),
                events := events w @ spec_transient_events args prev (m # ms)\<rparr>)"
    unfolding n w1_def by simp
  finally show ?case .
qed

lemma nvflash_loop_success:
  assumes "run_outcome w (run_calls w) = Completed out"
  shows "nvflash_loop (Suc k) args prev w =
           (Inr True,
            w\<lparr>run_calls := Suc (run_calls w),
               events := events w @
                 [RunCmd ''nvflash'' args True,
                  Notice ''Flasher downloaded - please see serial output for progress.'']\<rparr>)"
  apply (subst nvflash_loop.simps)
  apply (simp only: Run_def prod.case assms run_result.case)
  apply (simp add: emit_def)
  done

lemma nvflash_loop_fatal:
  assumes "run_outcome w (run_calls w) = Failed m"
      and "\<not> contains ''USB device not found'' m"
      and "stdout_is_tty w"
  shows "nvflash_loop (Suc k) args prev w =
           (Inl (CmdError (''nvflash failed: '' @ m)),
            w\<lparr>run_calls := Suc (run_calls w),
               events := events w @ [RunCmd ''nvflash'' args True]\<rparr>)"
  apply (subst nvflash_loop.simps)
  apply (simp only: Run_def prod.case assms(1) run_result.case)
  apply (simp add: assms)
  done

lemma nvflash_loop_not_tty:
  assumes "run_outcome w (run_calls w) = Failed m"
      and "\<not> stdout_is_tty w"
  shows "nvflash_loop (Suc k) args prev w =
           (Inr False,
            w\<lparr>run_calls := Suc (run_calls w),
               events := events w @ [RunCmd ''nvflash'' args True]\<rparr>)"
  apply (subst nvflash_loop.simps)
  apply (simp only: Run_def prod.case assms(1) run_result.case)
  apply (simp add: assms)
  done

text \<open>
  C1. The retry loop of \<open>_NvidiaFlashImage\<close>, for every sequence of \<open>nvflash\<close>
  outcomes. When standard output is a terminal: the command is tried up to 10 times; a
  failure whose message contains \<open>USB device not found\<close> is followed by a sleep of one
  second and the next try, with a notice (and the request to connect the cable) only
  when the message differs from the previous failure's message, so that the notices are
  the messages without adjacent repetitions; a failure whose message lacks the substring
  raises \<open>CmdError\<close> at once; ten transient failures return \<open>False\<close>; a success
  returns \<open>True\<close>. When standard output is not a terminal, the first failure of any
  kind returns \<open>False\<close> at once, with no retry, no notice and no error raised.
\<close>

theorem nvflash_loop_retry:
  fixes args w ms out m
  defines "outcome \<equiv> \<lambda>i. run_outcome w (run_calls w + i)"
  defines "result \<equiv> nvflash_loop 10 args None w"
  defines "attempt \<equiv> RunCmd ''nvflash'' args True"
  defines "transient \<equiv> \<forall>i<length ms. outcome i = Failed (ms ! i)
                           \<and> contains ''USB device not found'' (ms ! i)"
  shows "(stdout_is_tty w \<and> transient \<and> length ms < 10
            \<and> outcome (length ms) = Completed out \<longrightarrow>
            fst result = Inr True
          \<and> run_calls (snd result) = run_calls w + length ms + 1
          \<and> events (snd result) = events w @ spec_transient_events args None ms
               @ [attempt, Notice ''Flasher downloaded - please see serial output for progress.''])
       \<and> (stdout_is_tty w \<and> transient \<and> length ms < 10
            \<and> outcome (length ms) = Failed m \<and> \<not> contains ''USB device not found'' m \<longrightarrow>
            fst result = Inl (CmdError (''nvflash failed: '' @ m))
          \<and> run_calls (snd result) = run_calls w + length ms + 1
          \<and> events (snd result) = events w @ spec_transient_events args None ms @ [attempt])
       \<and> (stdout_is_tty w \<and> transient \<and> length ms = 10 \<longrightarrow>
            fst result = Inr False
          \<and> run_calls (snd result) = run_calls w + 10
          \<and> events (snd result) = events w @ spec_transient_events args None ms)
       \<and> (\<not> stdout_is_tty w \<and> outcome 0 = Failed m \<longrightarrow>
            fst result = Inr False
          \<and> run_calls (snd result) = run_calls w + 1
          \<and> events (snd result) = events w @ [attempt])
       \<and> (outcome 0 = Completed out \<longrightarrow>
            fst result = Inr True
          \<and> run_calls (snd result) = run_calls w + 1
          \<and> events (snd result) = events w
               @ [attempt, Notice ''Flasher downloaded - please see serial output for progress.''])
       \<and> notices (spec_transient_events args None ms) = remdups_adj ms
       \<and> filter (\<lambda>e. e = Sleep 1000) (spec_transient_events args None ms)
            = replicate (length ms) (Sleep 1000)
       \<and> filter (\<lambda>e. e = attempt) (spec_transient_events args None ms)
            = replicate (length ms) attempt"
proof -
  define w' where "w' = w\<lparr>run_calls := run_calls w + length ms,
                events := events w @ spec_transient_events args None ms\<rparr>"
  have ten: "(10::nat) = Suc 9"
    by simp
  have after: "nvflash_loop 10 args None w
                 = nvflash_loop (10 - length ms) args (if ms = [] then None else Some (last ms)) w'"
    if "stdout_is_tty w" transient "length ms \<le> 10"
    unfolding w'_def using that unfolding transient_def outcome_def
    by (intro nvflash_loop_transient) simp_all
  have 1: "fst result = Inr True
          \<and> run_calls (snd result) = run_calls w + length ms + 1
          \<and> events (snd result) = events w @ spec_transient_events args None ms
               @ [attempt, Notice ''Flasher downloaded - please see serial output for progress.'']"
    if h: "stdout_is_tty w" transient "length ms < 10" "outcome (length ms) = Completed out"
  proof -
    obtain k where k: "10 - length ms = Suc k"
      using h(3) by (cases "10 - length ms") auto
    have "run_outcome w' (run_calls w') = Completed out"
      using h(4) by (simp add: w'_def outcome_def)
    from nvflash_loop_success [OF this, of k args] after [OF h(1) h(2)] h(3) k show ?thesis
      by (simp add: result_def w'_def attempt_def)
  qed
  have 2: "fst result = Inl (CmdError (''nvflash failed: '' @ m))
          \<and> run_calls (snd result) = run_calls w + length ms + 1
          \<and> events (snd result) = events w @ spec_transient_events args None ms @ [attempt]"
    if h: "stdout_is_tty w" transient "length ms < 10" "outcome (length ms) = Failed m"
          "\<not> contains ''USB device not found'' m"
  proof -
    obtain k where k: "10 - length ms = Suc k"
      using h(3) by (cases "10 - length ms") auto
    have o: "run_outcome w' (run_calls w') = Failed m"
      using h(4) by (simp add: w'_def outcome_def)
    have t: "stdout_is_tty w'"
      using h(1) by (simp add: w'_def)
    from nvflash_loop_fatal [OF o h(5) t, of k args] after [OF h(1) h(2)] h(3) k show ?thesis
      by (simp add: result_def w'_def attempt_def)
  qed
  have 3: "fst result = Inr False
          \<and> run_calls (snd result) = run_calls w + 10
          \<and> events (snd result) = events w @ spec_transient_events args None ms"
    if h: "stdout_is_tty w" transient "length ms = 10"
    using after [OF h(1) h(2)] h(3) by (simp add: result_def w'_def)
  have 4: "fst result = Inr False
          \<and> run_calls (snd result) = run_calls w + 1
          \<and> events (snd result) = events w @ [attempt]"
    if h: "\<not> stdout_is_tty w" "outcome 0 = Failed m"
  proof -
    have "run_outcome w (run_calls w) = Failed m"
      using h(2) by (simp add: outcome_def)
    from nvflash_loop_not_tty [OF this h(1), of 9 args None] show ?thesis
      unfolding result_def ten by (simp add: attempt_def)
  qed
  have 5: "fst result = Inr True
          \<and> run_calls (snd result) = run_calls w + 1
          \<and> events (snd result) = events w
               @ [attempt, Notice ''Flasher downloaded - please see serial output for progress.'']"
    if h: "outcome 0 = Completed out"
  proof -
    have "run_outcome w (run_calls w) = Completed out"
      using h by (simp add: outcome_def)
    from nvflash_loop_success [OF this, of 9 args None] show ?thesis
      unfolding result_def ten by (simp add: attempt_def)
  qed
  have 6: "notices (spec_transient_events args None ms) = remdups_adj ms"
    by (simp add: notices_spec_transient_events)
  have 7: "filter (\<lambda>e. e = Sleep 1000) (spec_transient_events args None ms)
            = replicate (length ms) (Sleep 1000)"
    by (rule sleeps_spec_transient_events)
  have 8: "filter (\<lambda>e. e = attempt) (spec_transient_events args None ms)
            = replicate (length ms) attempt"
    unfolding attempt_def by (rule runs_spec_transient_events)
  from 1 2 3 4 5 6 7 8 show ?thesis
    by blast
qed

theorem nvflash_loop_retry_witness:
  "fst (nvflash_loop 10 [''--go''] None
          (sample_world (\<lambda>n. if n < 3 then Failed ''USB device not found'' else Completed [])
             True (\<lambda>script. script))) = Inr True
   \<and> events (snd (nvflash_loop 10 [''--go''] None
          (sample_world (\<lambda>n. if n < 3 then Failed ''USB device not found'' else Completed [])
             True (\<lambda>script. script))))
     = [RunCmd ''nvflash'' [''--go''] True,
        Notice ''USB device not found'',
        Progress ''Please connect USB A-A cable and do a recovery-reset'',
        Sleep 1000,
        RunCmd ''nvflash'' [''--go''] True,
        Sleep 1000,
        RunCmd ''nvflash'' [''--go''] True,
        Sleep 1000,
        RunCmd ''nvflash'' [''--go''] True,
        Notice ''Flasher downloaded - please see serial output for progress.'']"
proof -
  let ?W = "sample_world (\<lambda>n. if n < 3 then Failed ''USB device not found'' else Completed [])
             True (\<lambda>script. script)"
  let ?ms = "replicate 3 ''USB device not found''"
  have hyp: "stdout_is_tty ?W
       \<and> (\<forall>i<length ?ms. run_outcome ?W (run_calls ?W + i) = Failed (?ms ! i)
                           \<and> contains ''USB device not found'' (?ms ! i))
       \<and> length ?ms < 10
       \<and> run_outcome ?W (run_calls ?W + length ?ms) = Completed []"
    by (simp add: sample_world_def)
  from nvflash_loop_retry [where w = ?W and ms = ?ms and out = "[]" and args = "[''--go'']"] hyp
  have "fst (nvflash_loop 10 [''--go''] None ?W) = Inr True
      \<and> events (snd (nvflash_loop 10 [''--go''] None ?W))
          = events ?W @ spec_transient_events [''--go''] None ?ms
              @ [RunCmd ''nvflash'' [''--go''] True,
                 Notice ''Flasher downloaded - please see serial output for progress.'']"
    by blast
  then show ?thesis
    by (simp add: sample_world_def replicate_numeral)
qed

theorem nvflash_loop_not_tty_counterexample:
  "fst (nvflash_loop 10 [''--go''] None
          (sample_world (\<lambda>n. Failed ''nvflash: write error'') False (\<lambda>script. script)))
     = Inr False
   \<and> \<not> contains ''USB device not found'' ''nvflash: write error''
   \<and> contains ''USB device not found'' ''USB device not found''
   \<and> nvflash_loop 10 [''--go''] None
          (sample_world (\<lambda>n. Failed ''USB device not found'') False (\<lambda>script. script))
     = (Inr False,
        (sample_world (\<lambda>n. Failed ''USB device not found'') False (\<lambda>script. script))
          \<lparr>run_calls := 1, events := [RunCmd ''nvflash'' [''--go''] True]\<rparr>)"
proof -
  have ten: "(10::nat) = Suc 9"
    by simp
  let ?W = "sample_world (\<lambda>n. Failed ''nvflash: write error'') False (\<lambda>script. script)"
  let ?V = "sample_world (\<lambda>n. Failed ''USB device not found'') False (\<lambda>script. script)"
  have a: "run_outcome ?W (run_calls ?W) = Failed ''nvflash: write error''" "\<not> stdout_is_tty ?W"
    by (simp_all add: sample_world_def)
  have b: "run_outcome ?V (run_calls ?V) = Failed ''USB device not found''" "\<not> stdout_is_tty ?V"
    by (simp_all add: sample_world_def)
  show ?thesis
    unfolding ten nvflash_loop_not_tty [OF a] nvflash_loop_not_tty [OF b]
    by (simp add: sample_world_def)
qed

subsection \<open>DoWriteFirmware\<close>

lemma ExynosFlashImage_not_False:
  "fst (ExynosFlashImage self uboot bl1 bl2 payload w) \<noteq> Inr False"
  unfolding ExynosFlashImage_def
  by (simp add: Let_def split: prod.splits sum.splits run_result.splits)

lemma DoWriteFirmware_sd:
  "DoWriteFirmware flasher file_list image_fname text_base update verify (Some ''sd'') w
     = (Inr (), w)"
  unfolding DoWriteFirmware_def Let_def by simp

lemma DoWriteFirmware_unknown_dest:
  "dest \<noteq> Some ''usb'' \<Longrightarrow> dest \<noteq> Some ''sd'' \<Longrightarrow>
   DoWriteFirmware flasher file_list image_fname text_base update verify dest w
     = (Inl (CmdError (''Unknown destination device ''
                        @ quoted (case dest of None \<Rightarrow> ''None'' | Some d \<Rightarrow> d))), w)"
  unfolding DoWriteFirmware_def Let_def by simp

lemma DoWriteFirmware_unknown_method:
  assumes "fdt_flash_method w = Some method" and "method \<noteq> ''tegra''" and "method \<noteq> ''exynos''"
  shows "DoWriteFirmware flasher file_list image_fname text_base update verify (Some ''usb'') w
     = (Inl (CmdError (''Unknown flash method '' @ quoted method)), w)"
  unfolding DoWriteFirmware_def Let_def by (simp add: assms)

lemma DoWriteFirmware_tegra:
  assumes "fdt_flash_method w = None \<or> fdt_flash_method w = Some ''tegra''"
      and "file_list ''bct'' = Some bct"
  shows "DoWriteFirmware flasher file_list image_fname text_base update verify (Some ''usb'') w =
     (case NvidiaFlashImage
             \<lparr>wf_text_base = (case text_base of
                                          None \<Rightarrow> fdt_textbase w
                                        | Some t \<Rightarrow> if t \<noteq> 0 then t else fdt_textbase w),
                      wf_update = update, wf_verify = verify\<rparr> flasher bct image_fname w of
        (Inl e, w') \<Rightarrow> (Inl e, w')
      | (Inr True, w') \<Rightarrow>
          (Inr (), emit (Progress ''Image uploaded - please wait for flashing to complete'') w')
      | (Inr False, w') \<Rightarrow>
          (Inl (CmdError ''Image upload failed - please check board connection''), w'))"
proof -
  have m: "(case fdt_flash_method w of None \<Rightarrow> ''tegra'' | Some m \<Rightarrow> m) = ''tegra''"
    using assms(1) by auto
  have wr: "(case text_base of
                      None \<Rightarrow> \<lparr>wf_text_base = fdt_textbase w, wf_update = True, wf_verify = False\<rparr>
                    | Some t \<Rightarrow>
                        if t \<noteq> 0
                        then \<lparr>wf_text_base = fdt_textbase w, wf_update = True, wf_verify = False\<rparr>
                               \<lparr>wf_text_base := t\<rparr>
                        else \<lparr>wf_text_base = fdt_textbase w, wf_update = True, wf_verify = False\<rparr>)
                   \<lparr>wf_update := update\<rparr>\<lparr>wf_verify := verify\<rparr>
           = \<lparr>wf_text_base = (case text_base of
                                          None \<Rightarrow> fdt_textbase w
                                        | Some t \<Rightarrow> if t \<noteq> 0 then t else fdt_textbase w),
                      wf_update = update, wf_verify = verify\<rparr>"
    by (simp split: option.splits)
  show ?thesis
    unfolding DoWriteFirmware_def Let_def m wr
    by (simp add: assms(2) split: prod.splits sum.splits)
qed

lemma DoWriteFirmware_exynos:
  assumes "fdt_flash_method w = Some ''exynos''"
      and "file_list ''exynos-bl1'' = Some bl1" and "file_list ''exynos-bl2'' = Some bl2"
  shows "DoWriteFirmware flasher file_list image_fname text_base update verify (Some ''usb'') w =
     (case ExynosFlashImage
             \<lparr>wf_text_base = (case text_base of
                                          None \<Rightarrow> fdt_textbase w
                                        | Some t \<Rightarrow> if t \<noteq> 0 then t else fdt_textbase w),
                      wf_update = update, wf_verify = verify\<rparr> flasher bl1 bl2 image_fname w of
        (Inl e, w') \<Rightarrow> (Inl e, w')
      | (Inr True, w') \<Rightarrow>
          (Inr (), emit (Progress ''Image uploaded - please wait for flashing to complete'') w')
      | (Inr False, w') \<Rightarrow>
          (Inl (CmdError ''Image upload failed - please check board connection''), w'))"
proof -
  have m: "(case fdt_flash_method w of None \<Rightarrow> ''tegra'' | Some m \<Rightarrow> m) = ''exynos''"
    using assms(1) by simp
  have wr: "(case text_base of
                      None \<Rightarrow> \<lparr>wf_text_base = fdt_textbase w, wf_update = True, wf_verify = False\<rparr>
                    | Some t \<Rightarrow>
                        if t \<noteq> 0
                        then \<lparr>wf_text_base = fdt_textbase w, wf_update = True, wf_verify = False\<rparr>
                               \<lparr>wf_text_base := t\<rparr>
                        else \<lparr>wf_text_base = fdt_textbase w, wf_update = True, wf_verify = False\<rparr>)
                   \<lparr>wf_update := update\<rparr>\<lparr>wf_verify := verify\<rparr>
           = \<lparr>wf_text_base = (case text_base of
                                          None \<Rightarrow> fdt_textbase w
                                        | Some t \<Rightarrow> if t \<noteq> 0 then t else fdt_textbase w),
                      wf_update = update, wf_verify = verify\<rparr>"
    by (simp split: option.splits)
  show ?thesis
    unfolding DoWriteFirmware_def Let_def m wr
    by (simp add: assms(2) assms(3) split: prod.splits sum.splits)
qed

text \<open>
  C7. \<open>DoWriteFirmware\<close> with destination \<open>sd\<close> returns without running a command or
  printing anything; with a destination that is neither \<open>usb\<close> nor \<open>sd\<close> it raises
  \<open>CmdError\<close> naming the destination; with \<open>usb\<close> and a flash method other than \<open>tegra\<close>
  and \<open>exynos\<close> it raises \<open>CmdError\<close> naming the method; with \<open>usb\<close>, when the method of
  the board family returns \<open>False\<close> it raises \<open>Image upload failed\<close>, when it returns
  \<open>True\<close> it reports \<open>Image uploaded\<close>, and when it raises the exception passes through.
  The Exynos method never returns \<open>False\<close>.
\<close>

theorem DoWriteFirmware_dispatch:
  fixes flasher file_list image_fname text_base update verify dest w bct bl1 bl2 w' e
  defines "write \<equiv> \<lparr>wf_text_base = (case text_base of
                                          None \<Rightarrow> fdt_textbase w
                                        | Some t \<Rightarrow> if t \<noteq> 0 then t else fdt_textbase w),
                      wf_update = update, wf_verify = verify\<rparr>"
  defines "method \<equiv> (case fdt_flash_method w of None \<Rightarrow> ''tegra'' | Some m \<Rightarrow> m)"
  defines "result \<equiv> DoWriteFirmware flasher file_list image_fname text_base update verify dest w"
  defines "nvidia \<equiv> NvidiaFlashImage write flasher bct image_fname w"
  defines "exynos \<equiv> ExynosFlashImage write flasher bl1 bl2 image_fname w"
  shows "(dest = Some ''sd'' \<longrightarrow> result = (Inr (), w))
       \<and> (dest \<noteq> Some ''usb'' \<and> dest \<noteq> Some ''sd'' \<longrightarrow>
            result = (Inl (CmdError (''Unknown destination device ''
                        @ quoted (case dest of None \<Rightarrow> ''None'' | Some d \<Rightarrow> d))), w))
       \<and> (dest = Some ''usb'' \<and> method \<noteq> ''tegra'' \<and> method \<noteq> ''exynos'' \<longrightarrow>
            result = (Inl (CmdError (''Unknown flash method '' @ quoted method)), w))
       \<and> (dest = Some ''usb'' \<and> method = ''tegra'' \<and> file_list ''bct'' = Some bct \<longrightarrow>
            (nvidia = (Inr False, w') \<longrightarrow>
               result = (Inl (CmdError ''Image upload failed - please check board connection''), w'))
          \<and> (nvidia = (Inr True, w') \<longrightarrow>
               result = (Inr (), emit (Progress
                           ''Image uploaded - please wait for flashing to complete'') w'))
          \<and> (nvidia = (Inl e, w') \<longrightarrow> result = (Inl e, w')))
       \<and> (dest = Some ''usb'' \<and> method = ''exynos''
            \<and> file_list ''exynos-bl1'' = Some bl1 \<and> file_list ''exynos-bl2'' = Some bl2 \<longrightarrow>
            (exynos = (Inr True, w') \<longrightarrow>
               result = (Inr (), emit (Progress
                           ''Image uploaded - please wait for flashing to complete'') w'))
          \<and> (exynos = (Inl e, w') \<longrightarrow> result = (Inl e, w'))
          \<and> fst exynos \<noteq> Inr False)"
proof -
  have 1: "dest = Some ''sd'' \<longrightarrow> result = (Inr (), w)"
    unfolding result_def by (simp add: DoWriteFirmware_sd)
  have 2: "dest \<noteq> Some ''usb'' \<and> dest \<noteq> Some ''sd'' \<longrightarrow>
            result = (Inl (CmdError (''Unknown destination device ''
                        @ quoted (case dest of None \<Rightarrow> ''None'' | Some d \<Rightarrow> d))), w)"
    unfolding result_def by (simp add: DoWriteFirmware_unknown_dest)
  have 3: "dest = Some ''usb'' \<and> method \<noteq> ''tegra'' \<and> method \<noteq> ''exynos'' \<longrightarrow>
            result = (Inl (CmdError (''Unknown flash method '' @ quoted method)), w)"
  proof (intro impI, elim conjE)
    assume h: "dest = Some ''usb''" "method \<noteq> ''tegra''" "method \<noteq> ''exynos''"
    then have "fdt_flash_method w = Some method"
      by (auto simp add: method_def split: option.splits)
    from DoWriteFirmware_unknown_method [OF this h(2) h(3)] show
      "result = (Inl (CmdError (''Unknown flash method '' @ quoted method)), w)"
      unfolding result_def h(1) .
  qed
  have 4: "(nvidia = (Inr False, w') \<longrightarrow>
               result = (Inl (CmdError ''Image upload failed - please check board connection''), w'))
          \<and> (nvidia = (Inr True, w') \<longrightarrow>
               result = (Inr (), emit (Progress
                           ''Image uploaded - please wait for flashing to complete'') w'))
          \<and> (nvidia = (Inl e, w') \<longrightarrow> result = (Inl e, w'))"
    if h: "dest = Some ''usb''" "method = ''tegra''" "file_list ''bct'' = Some bct"
  proof -
    have "fdt_flash_method w = None \<or> fdt_flash_method w = Some ''tegra''"
      using h(2) by (auto simp add: method_def split: option.splits)
    from DoWriteFirmware_tegra [where file_list = file_list and w = w and bct = bct, OF this h(3)]
    show ?thesis
      unfolding result_def nvidia_def write_def h(1) by simp
  qed
  have 5: "(exynos = (Inr True, w') \<longrightarrow>
               result = (Inr (), emit (Progress
                           ''Image uploaded - please wait for flashing to complete'') w'))
          \<and> (exynos = (Inl e, w') \<longrightarrow> result = (Inl e, w'))"
    if h: "dest = Some ''usb''" "method = ''exynos''"
       "file_list ''exynos-bl1'' = Some bl1" "file_list ''exynos-bl2'' = Some bl2"
  proof -
    have "fdt_flash_method w = Some ''exynos''"
      using h(2) by (auto simp add: method_def split: option.splits)
    from DoWriteFirmware_exynos [where file_list = file_list and w = w and ?bl1.0 = bl1
        and ?bl2.0 = bl2, OF this h(3) h(4)]
    show ?thesis
      unfolding result_def exynos_def write_def h(1) by simp
  qed
  have 6: "fst exynos \<noteq> Inr False"
    unfolding exynos_def by (rule ExynosFlashImage_not_False)
  have c4: "dest = Some ''usb'' \<and> method = ''tegra'' \<and> file_list ''bct'' = Some bct \<longrightarrow>
            (nvidia = (Inr False, w') \<longrightarrow>
               result = (Inl (CmdError ''Image upload failed - please check board connection''), w'))
          \<and> (nvidia = (Inr True, w') \<longrightarrow>
               result = (Inr (), emit (Progress
                           ''Image uploaded - please wait for flashing to complete'') w'))
          \<and> (nvidia = (Inl e, w') \<longrightarrow> result = (Inl e, w'))"
    using 4 by (intro impI) (elim conjE)
  have c5: "dest = Some ''usb'' \<and> method = ''exynos''
            \<and> file_list ''exynos-bl1'' = Some bl1 \<and> file_list ''exynos-bl2'' = Some bl2 \<longrightarrow>
            (exynos = (Inr True, w') \<longrightarrow>
               result = (Inr (), emit (Progress
                           ''Image uploaded - please wait for flashing to complete'') w'))
          \<and> (exynos = (Inl e, w') \<longrightarrow> result = (Inl e, w'))
          \<and> fst exynos \<noteq> Inr False"
  proof (intro impI, elim conjE)
    assume h: "dest = Some ''usb''" "method = ''exynos''"
       "file_list ''exynos-bl1'' = Some bl1" "file_list ''exynos-bl2'' = Some bl2"
    from 5 [OF h] 6 show "(exynos = (Inr True, w') \<longrightarrow>
               result = (Inr (), emit (Progress
                           ''Image uploaded - please wait for flashing to complete'') w'))
          \<and> (exynos = (Inl e, w') \<longrightarrow> result = (Inl e, w'))
          \<and> fst exynos \<noteq> Inr False"
      by (intro conjI) (elim conjE, assumption)+
  qed
  show ?thesis
    by (intro conjI 1 2 3 c4 c5)
qed

lemma lower_Spi: "lower ''Spi'' = ''spi''"
  by (simp add: lower_def char_of_def bit_0)

lemma bct_boot_match_sample:
  "bct_boot_match ''DevType[0] = NvBootDevType_Spi;'' = Some ''Spi''"
  "bct_boot_match ''Version = 0x00020001;'' = None"
  by (simp_all add: bct_boot_match_def is_alpha_def Let_def)

lemma NvidiaFlashImage_loop:
  fixes self uboot bct payload w
  defines "w1 \<equiv> w\<lparr>run_calls := Suc (run_calls w),
                     events := events w @ [RunCmd ''bct_dump'' [bct] False]\<rparr>"
  assumes dump: "run_outcome w (run_calls w) = Completed bct_dumped"
      and line: "filter (\<lambda>l. bct_boot_match l \<noteq> None) (splitlines bct_dumped) = l # ls"
      and prepared: "fst (PrepareFlasher self uboot payload (wf_update self) (wf_verify self)
                            (lower (the (bct_boot_match l))) ''0'' w1) = Inr flasher"
  shows "\<exists>es. NvidiaFlashImage self uboot bct payload w =
           nvflash_loop 10
             [''--bct'', bct, ''--setbct'', ''--bl'', flasher, ''--go'',
              ''--setentry'', format_x True 0 (wf_text_base self),
              format_x True 0 (wf_text_base self)]
             None
             (w\<lparr>run_calls := Suc (run_calls w), events := events w @ es\<rparr>)"
proof -
  let ?p = "PrepareFlasher self uboot payload (wf_update self) (wf_verify self)
                            (lower (the (bct_boot_match l))) ''0'' w1"
  have r: "Run ''bct_dump'' [bct] False w = (Completed bct_dumped, w1)"
    using dump by (simp add: Run_def w1_def)
  obtain es where es: "snd ?p = w1\<lparr>events := events w1 @ es\<rparr>"
    using PrepareFlasher_world by blast
  obtain w2 where w2: "w2 = w1\<lparr>events := events w1 @ es\<rparr>"
    by simp
  have p: "?p = (Inr flasher, w2)"
    using prepared es w2 by (metis prod.collapse)
  have "NvidiaFlashImage self uboot bct payload w =
           nvflash_loop 10
             [''--bct'', bct, ''--setbct'', ''--bl'', flasher, ''--go'',
              ''--setentry'', format_x True 0 (wf_text_base self),
              format_x True 0 (wf_text_base self)]
             None
             (emit (Progress ''Uploading flasher image'') w2)"
    unfolding NvidiaFlashImage_def r prod.case run_result.case line list.case Let_def p sum.case
    by (rule refl)
  also have "emit (Progress ''Uploading flasher image'') w2
      = w\<lparr>run_calls := Suc (run_calls w),
           events := events w @ (RunCmd ''bct_dump'' [bct] False # es
                                  @ [Progress ''Uploading flasher image''])\<rparr>"
    by (simp add: w2 w1_def emit_def)
  finally show ?thesis
    by blast
qed

lemma NvidiaFlashImage_result:
  fixes self uboot bct payload w
  defines "w1 \<equiv> w\<lparr>run_calls := Suc (run_calls w),
                     events := events w @ [RunCmd ''bct_dump'' [bct] False]\<rparr>"
  assumes dump: "run_outcome w (run_calls w) = Completed bct_dumped"
      and line: "filter (\<lambda>l. bct_boot_match l \<noteq> None) (splitlines bct_dumped) = l # ls"
      and prepared: "fst (PrepareFlasher self uboot payload (wf_update self) (wf_verify self)
                            (lower (the (bct_boot_match l))) ''0'' w1) = Inr flasher"
  shows "(\<not> stdout_is_tty w \<and> run_outcome w (Suc (run_calls w)) = Failed m \<longrightarrow>
            fst (NvidiaFlashImage self uboot bct payload w) = Inr False)
       \<and> (run_outcome w (Suc (run_calls w)) = Completed out \<longrightarrow>
            fst (NvidiaFlashImage self uboot bct payload w) = Inr True)"
proof -
  have ten: "(10::nat) = Suc 9"
    by simp
  from NvidiaFlashImage_loop [OF dump line prepared [unfolded w1_def]] obtain es where
    e: "NvidiaFlashImage self uboot bct payload w =
           nvflash_loop 10
             [''--bct'', bct, ''--setbct'', ''--bl'', flasher, ''--go'',
              ''--setentry'', format_x True 0 (wf_text_base self),
              format_x True 0 (wf_text_base self)]
             None
             (w\<lparr>run_calls := Suc (run_calls w), events := events w @ es\<rparr>)"
    by blast
  let ?w2 = "w\<lparr>run_calls := Suc (run_calls w), events := events w @ es\<rparr>"
  let ?args = "[''--bct'', bct, ''--setbct'', ''--bl'', flasher, ''--go'',
              ''--setentry'', format_x True 0 (wf_text_base self),
              format_x True 0 (wf_text_base self)]"
  have a: "fst (NvidiaFlashImage self uboot bct payload w) = Inr False"
    if "\<not> stdout_is_tty w" "run_outcome w (Suc (run_calls w)) = Failed m"
  proof -
    have "run_outcome ?w2 (run_calls ?w2) = Failed m" "\<not> stdout_is_tty ?w2"
      using that by simp_all
    then have "nvflash_loop (Suc 9) ?args None ?w2 =
           (Inr False,
            ?w2\<lparr>run_calls := Suc (run_calls ?w2),
               events := events ?w2 @ [RunCmd ''nvflash'' ?args True]\<rparr>)"
      by (rule nvflash_loop_not_tty)
    then show ?thesis
      unfolding e ten by (simp only: fst_conv)
  qed
  have b: "fst (NvidiaFlashImage self uboot bct payload w) = Inr True"
    if "run_outcome w (Suc (run_calls w)) = Completed out"
  proof -
    have "run_outcome ?w2 (run_calls ?w2) = Completed out"
      using that by simp
    then have "nvflash_loop (Suc 9) ?args None ?w2 =
           (Inr True,
            ?w2\<lparr>run_calls := Suc (run_calls ?w2),
               events := events ?w2 @
                 [RunCmd ''nvflash'' ?args True,
                  Notice ''Flasher downloaded - please see serial output for progress.'']\<rparr>)"
      by (rule nvflash_loop_success)
    then show ?thesis
      unfolding e ten by (simp only: fst_conv)
  qed
  from a b show ?thesis
    by blast
qed

lemma NvidiaFlashImage_sample:
  fixes rest :: run_result and tty :: bool
  defines "W \<equiv> sample_world
             (\<lambda>n. if n = 0
                  then Completed ''Version = 0x00020001;\<newline>DevType[0] = NvBootDevType_Spi;\<newline>''
                  else rest)
             tty (\<lambda>script. ''bootcmd='' @ take 40 script)"
  defines "S \<equiv> \<lparr>wf_text_base = 0x00e08000, wf_update = True, wf_verify = False\<rparr>"
  shows "(\<not> tty \<and> rest = Failed m \<longrightarrow>
            fst (NvidiaFlashImage S ''u-boot.bin'' ''board.bct'' ''image.bin'' W) = Inr False)
       \<and> (rest = Completed out \<longrightarrow>
            fst (NvidiaFlashImage S ''u-boot.bin'' ''board.bct'' ''image.bin'' W) = Inr True)"
proof -
  have dump: "run_outcome W (run_calls W)
                = Completed ''Version = 0x00020001;\<newline>DevType[0] = NvBootDevType_Spi;\<newline>''"
    by (simp add: W_def sample_world_def)
  have line: "filter (\<lambda>l. bct_boot_match l \<noteq> None)
                (splitlines ''Version = 0x00020001;\<newline>DevType[0] = NvBootDevType_Spi;\<newline>'')
              = ''DevType[0] = NvBootDevType_Spi;'' # []"
    by (simp add: bct_boot_match_sample)
  have prepared: "fst (PrepareFlasher S ''u-boot.bin'' ''image.bin'' (wf_update S) (wf_verify S)
                    (lower (the (bct_boot_match ''DevType[0] = NvBootDevType_Spi;''))) ''0''
                    (W\<lparr>run_calls := Suc (run_calls W),
                       events := events W @ [RunCmd ''bct_dump'' [''board.bct''] False]\<rparr>))
                  = Inr ''out/flasher-for-image.bin''"
    by (simp add: PrepareFlasher_normal_form W_def S_def sample_eval)
  have tty: "stdout_is_tty W = tty" and o: "run_outcome W (Suc (run_calls W)) = rest"
    by (simp_all add: W_def sample_world_def)
  from NvidiaFlashImage_result [OF dump line prepared, of m out] show ?thesis
    by (simp add: tty o)
qed

theorem DoWriteFirmware_dispatch_witness:
  "DoWriteFirmware ''u-boot.bin'' [''bct'' \<mapsto> ''board.bct''] ''image.bin'' None True False
      (Some ''sd'') (sample_world (\<lambda>n. Failed []) True (\<lambda>script. script))
     = (Inr (), sample_world (\<lambda>n. Failed []) True (\<lambda>script. script))
   \<and> fst (DoWriteFirmware ''u-boot.bin'' [''bct'' \<mapsto> ''board.bct''] ''image.bin'' None True False
      (Some ''nand'') (sample_world (\<lambda>n. Failed []) True (\<lambda>script. script)))
     = Inl (CmdError (''Unknown destination device '' @ quoted ''nand''))
   \<and> fst (DoWriteFirmware ''u-boot.bin'' [''bct'' \<mapsto> ''board.bct''] ''image.bin'' None True False
      (Some ''usb'')
      ((sample_world (\<lambda>n. Failed []) True (\<lambda>script. script))\<lparr>fdt_flash_method := Some ''omap''\<rparr>))
     = Inl (CmdError (''Unknown flash method '' @ quoted ''omap''))
   \<and> fst (DoWriteFirmware ''u-boot.bin'' [''bct'' \<mapsto> ''board.bct''] ''image.bin'' None True False
      (Some ''usb'')
      (sample_world
         (\<lambda>n. if n = 0
              then Completed ''Version = 0x00020001;\<newline>DevType[0] = NvBootDevType_Spi;\<newline>''
              else Failed ''USB device not found'')
         False (\<lambda>script. ''bootcmd='' @ take 40 script)))
     = Inl (CmdError ''Image upload failed - please check board connection'')
   \<and> fst (DoWriteFirmware ''u-boot.bin'' [''bct'' \<mapsto> ''board.bct''] ''image.bin'' None True False
      (Some ''usb'')
      (sample_world
         (\<lambda>n. if n = 0
              then Completed ''Version = 0x00020001;\<newline>DevType[0] = NvBootDevType_Spi;\<newline>''
              else Completed [])
         True (\<lambda>script. ''bootcmd='' @ take 40 script)))
     = Inr ()"
proof -
  let ?fl = "[''bct'' \<mapsto> ''board.bct'']"
  let ?S = "\<lparr>wf_text_base = 0x00e08000, wf_update = True, wf_verify = False\<rparr>"
  let ?W0 = "sample_world (\<lambda>n. Failed []) True (\<lambda>script. script)"
  let ?WF = "sample_world
         (\<lambda>n. if n = 0
              then Completed ''Version = 0x00020001;\<newline>DevType[0] = NvBootDevType_Spi;\<newline>''
              else Failed ''USB device not found'')
         False (\<lambda>script. ''bootcmd='' @ take 40 script)"
  let ?WT = "sample_world
         (\<lambda>n. if n = 0
              then Completed ''Version = 0x00020001;\<newline>DevType[0] = NvBootDevType_Spi;\<newline>''
              else Completed [])
         True (\<lambda>script. ''bootcmd='' @ take 40 script)"
  have 1: "DoWriteFirmware ''u-boot.bin'' ?fl ''image.bin'' None True False (Some ''sd'') ?W0
             = (Inr (), ?W0)"
    using DoWriteFirmware_dispatch [where dest = "Some ''sd''" and w = ?W0
        and flasher = "''u-boot.bin''" and file_list = ?fl and image_fname = "''image.bin''"
        and text_base = None and update = True and verify = False]
    by simp
  have 2: "fst (DoWriteFirmware ''u-boot.bin'' ?fl ''image.bin'' None True False (Some ''nand'') ?W0)
             = Inl (CmdError (''Unknown destination device '' @ quoted ''nand''))"
    using DoWriteFirmware_dispatch [where dest = "Some ''nand''" and w = ?W0
        and flasher = "''u-boot.bin''" and file_list = ?fl and image_fname = "''image.bin''"
        and text_base = None and update = True and verify = False]
    by simp
  have 3: "fst (DoWriteFirmware ''u-boot.bin'' ?fl ''image.bin'' None True False (Some ''usb'')
                  (?W0\<lparr>fdt_flash_method := Some ''omap''\<rparr>))
             = Inl (CmdError (''Unknown flash method '' @ quoted ''omap''))"
    using DoWriteFirmware_dispatch [where dest = "Some ''usb''"
        and w = "?W0\<lparr>fdt_flash_method := Some ''omap''\<rparr>"
        and flasher = "''u-boot.bin''" and file_list = ?fl and image_fname = "''image.bin''"
        and text_base = None and update = True and verify = False]
    by simp
  have nf: "fst (NvidiaFlashImage ?S ''u-boot.bin'' ''board.bct'' ''image.bin'' ?WF) = Inr False"
    using NvidiaFlashImage_sample [where tty = False and rest = "Failed ''USB device not found''"
        and m = "''USB device not found''"]
    by simp
  have nt: "fst (NvidiaFlashImage ?S ''u-boot.bin'' ''board.bct'' ''image.bin'' ?WT) = Inr True"
    using NvidiaFlashImage_sample [where tty = True and rest = "Completed []" and out = "[]"]
    by simp
  have 4: "fst (DoWriteFirmware ''u-boot.bin'' ?fl ''image.bin'' None True False (Some ''usb'') ?WF)
             = Inl (CmdError ''Image upload failed - please check board connection'')"
    using DoWriteFirmware_dispatch [where dest = "Some ''usb''" and w = ?WF
        and flasher = "''u-boot.bin''" and file_list = ?fl and image_fname = "''image.bin''"
        and text_base = None and update = True and verify = False and bct = "''board.bct''"
        and w' = "snd (NvidiaFlashImage ?S ''u-boot.bin'' ''board.bct'' ''image.bin'' ?WF)"]
      nf
    by (simp add: sample_world_def prod_eq_iff)
  have 5: "fst (DoWriteFirmware ''u-boot.bin'' ?fl ''image.bin'' None True False (Some ''usb'') ?WT)
             = Inr ()"
    using DoWriteFirmware_dispatch [where dest = "Some ''usb''" and w = ?WT
        and flasher = "''u-boot.bin''" and file_list = ?fl and image_fname = "''image.bin''"
        and text_base = None and update = True and verify = False and bct = "''board.bct''"
        and w' = "snd (NvidiaFlashImage ?S ''u-boot.bin'' ''board.bct'' ''image.bin'' ?WT)"]
      nt
    by (simp add: sample_world_def prod_eq_iff)
  from 1 2 3 4 5 show ?thesis
    by (intro conjI)
qed

end
